theory Spec2Isabelle
  imports Complex_Main
begin

section \<open>Backward trajectories through gridded model output\<close>

text \<open>
  A shallow embedding of the notebook \<^verbatim>\<open>backwards_trajectories_CM1_test2.ipynb\<close>:
  the parcel arrays, the interpolation calls and the integration loop, cell by cell.
\<close>

subsection \<open>Array values\<close>

text \<open>
  The arrays of the notebook hold double-precision numbers. A value is modelled as a
  real number or one of the three special values of the format: not-a-number and the
  two infinities. The arithmetic on finite values is exact (rounding, overflow and the
  sign of zero are not represented; a zero divisor counts as positive zero); the
  special values follow the rules of the format, so that the not-a-number fill value of
  an interpolation propagates through the loop as it does in NumPy.
\<close>

datatype fval = NaN | NInf | PInf | Fin real

fun fneg :: "fval \<Rightarrow> fval" where
  "fneg NaN = NaN"
| "fneg NInf = PInf"
| "fneg PInf = NInf"
| "fneg (Fin a) = Fin (- a)"

fun fadd :: "fval \<Rightarrow> fval \<Rightarrow> fval" where
  "fadd (Fin a) (Fin b) = Fin (a + b)"
| "fadd NaN y = NaN"
| "fadd x NaN = NaN"
| "fadd PInf NInf = NaN"
| "fadd NInf PInf = NaN"
| "fadd PInf y = PInf"
| "fadd NInf y = NInf"
| "fadd x PInf = PInf"
| "fadd x NInf = NInf"

definition fsub :: "fval \<Rightarrow> fval \<Rightarrow> fval" where
  "fsub x y = fadd x (fneg y)"

text \<open>The infinity whose sign is that of a non-zero real.\<close>

definition inf_of_sign :: "real \<Rightarrow> fval" where
  "inf_of_sign a = (if 0 < a then PInf else NInf)"

fun fmul :: "fval \<Rightarrow> fval \<Rightarrow> fval" where
  "fmul (Fin a) (Fin b) = Fin (a * b)"
| "fmul NaN y = NaN"
| "fmul x NaN = NaN"
| "fmul PInf PInf = PInf"
| "fmul PInf NInf = NInf"
| "fmul NInf PInf = NInf"
| "fmul NInf NInf = PInf"
| "fmul PInf (Fin b) = (if b = 0 then NaN else inf_of_sign b)"
| "fmul NInf (Fin b) = (if b = 0 then NaN else inf_of_sign (- b))"
| "fmul (Fin a) PInf = (if a = 0 then NaN else inf_of_sign a)"
| "fmul (Fin a) NInf = (if a = 0 then NaN else inf_of_sign (- a))"

fun fdiv :: "fval \<Rightarrow> fval \<Rightarrow> fval" where
  "fdiv (Fin a) (Fin b) =
     (if b = 0 then (if a = 0 then NaN else inf_of_sign a) else Fin (a / b))"
| "fdiv NaN y = NaN"
| "fdiv x NaN = NaN"
| "fdiv (Fin a) PInf = Fin 0"
| "fdiv (Fin a) NInf = Fin 0"
| "fdiv PInf (Fin b) = (if b < 0 then NInf else PInf)"
| "fdiv NInf (Fin b) = (if b < 0 then PInf else NInf)"
| "fdiv PInf y = NaN"
| "fdiv NInf y = NaN"

text \<open>
  \<^verbatim>\<open>a.clip(min=m)\<close> is the element-wise maximum with \<open>m\<close>; NumPy's maximum returns
  not-a-number when the element is not-a-number.
\<close>

fun clip_min :: "real \<Rightarrow> fval \<Rightarrow> fval" where
  "clip_min m NaN = NaN"
| "clip_min m NInf = Fin m"
| "clip_min m PInf = PInf"
| "clip_min m (Fin a) = Fin (max a m)"

text \<open>The comparison \<open>v \<ge> m\<close> of the format: false when \<open>v\<close> is not-a-number.\<close>

fun fge :: "fval \<Rightarrow> real \<Rightarrow> bool" where
  "fge NaN m = False"
| "fge NInf m = False"
| "fge PInf m = True"
| "fge (Fin a) m = (m \<le> a)"

text \<open>The comparison \<open>v < m\<close> of the format: false when \<open>v\<close> is not-a-number.\<close>

fun flt :: "fval \<Rightarrow> real \<Rightarrow> bool" where
  "flt NaN m = False"
| "flt NInf m = True"
| "flt PInf m = False"
| "flt (Fin a) m = (a < m)"

text \<open>\<^verbatim>\<open>np.isfinite\<close>: a number, neither not-a-number nor an infinity.\<close>

fun isfinite :: "fval \<Rightarrow> bool" where
  "isfinite (Fin a) = True"
| "isfinite v = False"

subsection \<open>Linear interpolation on a regular grid\<close>

text \<open>
  \<^verbatim>\<open>interpolate.interpn(points, values, xi, method='linear', bounds_error=False,
  fill_value=f)\<close> is a routine of the SciPy library. It is embedded here from the
  library's algorithm for this call: on every axis the index of the lower grid point
  is \<^verbatim>\<open>searchsorted(grid, x) - 1\<close> limited to \<open>0 .. size - 2\<close>, the normalised
  distance is \<open>(x - grid[i]) / (grid[i + 1] - grid[i])\<close>, the result is the sum over the
  corners of the enclosing cell of the corner value times the product of the weights
  (\<open>1 - d\<close> for the lower corner of an axis, \<open>d\<close> for the upper one), and a point with a
  coordinate below the first or above the last grid point receives the fill value.
  No call raises. A point with a not-a-number coordinate yields not-a-number: the
  comparisons with the bounds are false and the weights are not-a-number. (Where one
  coordinate is not-a-number and another one is out of range, SciPy releases differ
  between not-a-number and the fill value; the embedding takes not-a-number, and no
  statement below depends on that case.) An infinite coordinate is beyond every bound.

  The embedding is for axes with at least two grid points: on a shorter axis the
  library divides by a cell width of zero or fails. Every statement below that depends
  on the value of an interpolation has the sizes of the axes among its hypotheses.
\<close>

text \<open>
  A field array holds values of the format, so it may hold not-a-number or an infinity
  at a grid point (a masked or missing value of the model output).
\<close>

type_synonym arr3 = "nat \<Rightarrow> nat \<Rightarrow> nat \<Rightarrow> fval"
type_synonym arr2 = "nat \<Rightarrow> nat \<Rightarrow> fval"

text \<open>\<^verbatim>\<open>np.arange(0, n, 1)\<close>\<close>

definition arange :: "nat \<Rightarrow> real list" where
  "arange n = map real [0..<n]"

text \<open>\<^verbatim>\<open>np.searchsorted(grid, x)\<close> on an ascending grid: the number of grid points below \<open>x\<close>.\<close>

definition searchsorted :: "real list \<Rightarrow> real \<Rightarrow> nat" where
  "searchsorted g x = length (filter (\<lambda>a. a < x) g)"

definition find_index :: "real list \<Rightarrow> real \<Rightarrow> nat" where
  "find_index g x = min (searchsorted g x - 1) (length g - 2)"

definition norm_distance :: "real list \<Rightarrow> real \<Rightarrow> real" where
  "norm_distance g x =
     (let i = find_index g x in (x - g ! i) / (g ! (i + 1) - g ! i))"

definition out_of_bounds :: "real list \<Rightarrow> real \<Rightarrow> bool" where
  "out_of_bounds g x = (x < g ! 0 \<or> x > g ! (length g - 1))"

text \<open>The weight of a corner on one axis: \<open>1 - d\<close> at the lower index, \<open>d\<close> at the upper.\<close>

definition weight :: "real \<Rightarrow> bool \<Rightarrow> real" where
  "weight d upper = (if upper then d else 1 - d)"

text \<open>
  \<^verbatim>\<open>values = 0.\<close>, then for every corner \<^verbatim>\<open>values += self.values[edge_indices] * weight\<close>,
  in the order of \<^verbatim>\<open>itertools.product\<close>. A corner that holds not-a-number or an infinity
  makes the sum not-a-number even where its weight is zero.
\<close>

definition evaluate_linear3 :: "real list \<times> real list \<times> real list \<Rightarrow> arr3 \<Rightarrow> real \<times> real \<times> real \<Rightarrow> fval" where
  "evaluate_linear3 grids values xi =
     (case grids of (gz, gy, gx) \<Rightarrow> case xi of (z, y, x) \<Rightarrow>
        let iz = find_index gz z; iy = find_index gy y; ix = find_index gx x;
            dz = norm_distance gz z; dy = norm_distance gy y; dx = norm_distance gx x;
            v0 = Fin 0;
            v1 = fadd v0 (fmul (values iz iy ix)
                   (Fin (weight dz False * weight dy False * weight dx False)));
            v2 = fadd v1 (fmul (values iz iy (ix + 1))
                   (Fin (weight dz False * weight dy False * weight dx True)));
            v3 = fadd v2 (fmul (values iz (iy + 1) ix)
                   (Fin (weight dz False * weight dy True * weight dx False)));
            v4 = fadd v3 (fmul (values iz (iy + 1) (ix + 1))
                   (Fin (weight dz False * weight dy True * weight dx True)));
            v5 = fadd v4 (fmul (values (iz + 1) iy ix)
                   (Fin (weight dz True * weight dy False * weight dx False)));
            v6 = fadd v5 (fmul (values (iz + 1) iy (ix + 1))
                   (Fin (weight dz True * weight dy False * weight dx True)));
            v7 = fadd v6 (fmul (values (iz + 1) (iy + 1) ix)
                   (Fin (weight dz True * weight dy True * weight dx False)))
        in fadd v7 (fmul (values (iz + 1) (iy + 1) (ix + 1))
                   (Fin (weight dz True * weight dy True * weight dx True))))"

definition evaluate_linear2 :: "real list \<times> real list \<Rightarrow> arr2 \<Rightarrow> real \<times> real \<Rightarrow> fval" where
  "evaluate_linear2 grids values xi =
     (case grids of (gy, gx) \<Rightarrow> case xi of (y, x) \<Rightarrow>
        let iy = find_index gy y; ix = find_index gx x;
            dy = norm_distance gy y; dx = norm_distance gx x;
            v0 = Fin 0;
            v1 = fadd v0 (fmul (values iy ix) (Fin (weight dy False * weight dx False)));
            v2 = fadd v1 (fmul (values iy (ix + 1)) (Fin (weight dy False * weight dx True)));
            v3 = fadd v2 (fmul (values (iy + 1) ix) (Fin (weight dy True * weight dx False)))
        in fadd v3 (fmul (values (iy + 1) (ix + 1)) (Fin (weight dy True * weight dx True))))"

fun interpn3 :: "real list \<times> real list \<times> real list \<Rightarrow> arr3 \<Rightarrow> fval \<Rightarrow> fval \<times> fval \<times> fval \<Rightarrow> fval" where
  "interpn3 (gz, gy, gx) values fill_value (Fin z, Fin y, Fin x) =
     (if out_of_bounds gz z \<or> out_of_bounds gy y \<or> out_of_bounds gx x then fill_value
      else evaluate_linear3 (gz, gy, gx) values (z, y, x))"
| "interpn3 (gz, gy, gx) values fill_value (z, y, x) =
     (if z = NaN \<or> y = NaN \<or> x = NaN then NaN else fill_value)"

fun interpn2 :: "real list \<times> real list \<Rightarrow> arr2 \<Rightarrow> fval \<Rightarrow> fval \<times> fval \<Rightarrow> fval" where
  "interpn2 (gy, gx) values fill_value (Fin y, Fin x) =
     (if out_of_bounds gy y \<or> out_of_bounds gx x then fill_value
      else evaluate_linear2 (gy, gx) values (y, x))"
| "interpn2 (gy, gx) values fill_value (y, x) =
     (if y = NaN \<or> x = NaN then NaN else fill_value)"

text \<open>
  The same sums for an array of finite values, in the reals; the facts about the
  interpolation of such arrays are stated with them.
\<close>

definition linear3 :: "real list \<times> real list \<times> real list \<Rightarrow> (nat \<Rightarrow> nat \<Rightarrow> nat \<Rightarrow> real) \<Rightarrow> real \<times> real \<times> real \<Rightarrow> real" where
  "linear3 grids a xi =
     (case grids of (gz, gy, gx) \<Rightarrow> case xi of (z, y, x) \<Rightarrow>
        let iz = find_index gz z; iy = find_index gy y; ix = find_index gx x;
            dz = norm_distance gz z; dy = norm_distance gy y; dx = norm_distance gx x
        in a iz iy ix * (weight dz False * weight dy False * weight dx False)
         + a iz iy (ix + 1) * (weight dz False * weight dy False * weight dx True)
         + a iz (iy + 1) ix * (weight dz False * weight dy True * weight dx False)
         + a iz (iy + 1) (ix + 1) * (weight dz False * weight dy True * weight dx True)
         + a (iz + 1) iy ix * (weight dz True * weight dy False * weight dx False)
         + a (iz + 1) iy (ix + 1) * (weight dz True * weight dy False * weight dx True)
         + a (iz + 1) (iy + 1) ix * (weight dz True * weight dy True * weight dx False)
         + a (iz + 1) (iy + 1) (ix + 1) * (weight dz True * weight dy True * weight dx True))"

definition linear2 :: "real list \<times> real list \<Rightarrow> (nat \<Rightarrow> nat \<Rightarrow> real) \<Rightarrow> real \<times> real \<Rightarrow> real" where
  "linear2 grids a xi =
     (case grids of (gy, gx) \<Rightarrow> case xi of (y, x) \<Rightarrow>
        let iy = find_index gy y; ix = find_index gx x;
            dy = norm_distance gy y; dx = norm_distance gx x
        in a iy ix * (weight dy False * weight dx False)
         + a iy (ix + 1) * (weight dy False * weight dx True)
         + a (iy + 1) ix * (weight dy True * weight dx False)
         + a (iy + 1) (ix + 1) * (weight dy True * weight dx True))"

subsection \<open>Model output and trajectory settings\<close>

text \<open>
  The data set \<^verbatim>\<open>ds\<close> as the notebook reads it: the grid sizes, the number of output
  times, the three velocity components and the named scalar variables by output time,
  the heights of the model levels \<^verbatim>\<open>ds.zh[0]\<close>, the terrain \<^verbatim>\<open>ds.zs[0]\<close> when the
  output has one, and the two scalars the notebook derives from the coordinate arrays
  (\<^verbatim>\<open>hor_resolution\<close> from \<^verbatim>\<open>ds.xf\<close>, \<^verbatim>\<open>time_step_length\<close> from \<^verbatim>\<open>ds.time\<close>).
  Every array has the shape of the grid, and every variable the notebook names exists.
\<close>

record dataset =
  nx :: nat
  ny :: nat
  nz :: nat
  nt :: nat
  uinterp :: "nat \<Rightarrow> arr3"
  vinterp :: "nat \<Rightarrow> arr3"
  winterp :: "nat \<Rightarrow> arr3"
  variable :: "string \<Rightarrow> nat \<Rightarrow> arr3"
  zh :: arr3
  zs :: "arr2 option"
  hor_resolution :: real
  time_step_length :: real

text \<open>
  The values marked "set by user". The seed positions of cell "Initialize Parcels" are
  given per parcel; a parcel is numbered by its position in the flattened
  \<open>num_seeds_z \<times> num_seeds_y\<close> block, as \<^verbatim>\<open>flatten\<close> and \<^verbatim>\<open>reshape\<close> number it.
\<close>

record settings =
  num_seeds_z :: nat
  num_seeds_y :: nat
  time_steps :: nat
  start_time_step :: nat
  var_name1 :: string
  staggered :: string
  seed_x :: "nat \<Rightarrow> real"
  seed_y :: "nat \<Rightarrow> real"
  seed_z :: "nat \<Rightarrow> real"

text \<open>
  A parcel array of shape \<open>(time_steps, num_seeds_z, num_seeds_y)\<close>: the value at a time
  step and a parcel number. All element-wise NumPy operations of the notebook act on
  every parcel alike, so the embedding does not bound the parcel number. The loop and
  the cell after it read and write the rows \<open>0\<close> to \<open>time_steps - 1\<close> only; the one index
  that can be out of range, row 0 of an array without rows, is a branch of
  \<open>initialize\<close> below.
\<close>

type_synonym parr = "nat \<Rightarrow> nat \<Rightarrow> fval"

record state =
  xpos :: parr
  ypos :: parr
  zpos :: parr
  zpos_heightASL :: parr
  zpos_vert_res :: parr
  variable1 :: parr
  var1 :: "arr3 option"

datatype error = IndexError | NameError

text \<open>\<^verbatim>\<open>np.zeros(shape)\<close>\<close>

definition zeros :: parr where
  "zeros = (\<lambda>t p. Fin 0)"

text \<open>
  Indexing the time axis of a variable with a Python integer: a negative index counts
  from the end, an index beyond the axis raises.
\<close>

definition time_index :: "nat \<Rightarrow> int \<Rightarrow> error + nat" where
  "time_index n i =
     (let j = (if i < 0 then int n + i else i)
      in if 0 \<le> j \<and> j < int n then Inr (nat j) else Inl IndexError)"

text \<open>The output time read at step \<open>t\<close> of the loop: \<^verbatim>\<open>start_time_step-t\<close>.\<close>

definition snapshot :: "dataset \<Rightarrow> settings \<Rightarrow> nat \<Rightarrow> error + nat" where
  "snapshot ds cfg t = time_index (nt ds) (int (start_time_step cfg) - int t)"

text \<open>\<^verbatim>\<open>(z,y,x)\<close>, \<^verbatim>\<open>(z[:-1],y,x)\<close> and \<^verbatim>\<open>(y,x)\<close>\<close>

definition grid_zyx :: "dataset \<Rightarrow> real list \<times> real list \<times> real list" where
  "grid_zyx ds = (arange (nz ds), arange (ny ds), arange (nx ds))"

definition grid_vert :: "dataset \<Rightarrow> real list \<times> real list \<times> real list" where
  "grid_vert ds = (arange (nz ds - 1), arange (ny ds), arange (nx ds))"

definition grid_yx :: "dataset \<Rightarrow> real list \<times> real list" where
  "grid_yx ds = (arange (ny ds), arange (nx ds))"

text \<open>\<^verbatim>\<open>vert_resolution = ds.zh[0,1:,:,:].values-ds.zh[0,:-1,:,:].values\<close>\<close>

definition vert_resolution :: "dataset \<Rightarrow> arr3" where
  "vert_resolution ds = (\<lambda>k j i. fsub (zh ds (k + 1) j i) (zh ds k j i))"

text \<open>The surface height grid: \<^verbatim>\<open>ds.zs[0]\<close>, or zeros when the output has no terrain.\<close>

definition surface_grid :: "dataset \<Rightarrow> arr2" where
  "surface_grid ds = (case zs ds of Some a \<Rightarrow> a | None \<Rightarrow> (\<lambda>j i. Fin 0))"

subsection \<open>Coordinates for the interpolations\<close>

definition xloc :: "state \<Rightarrow> nat \<Rightarrow> nat \<Rightarrow> fval" where
  "xloc s t p = fsub (xpos s t p) (Fin 0.5)"

definition xloc_stag :: "state \<Rightarrow> nat \<Rightarrow> nat \<Rightarrow> fval" where
  "xloc_stag s t p = xpos s t p"

definition yloc :: "state \<Rightarrow> nat \<Rightarrow> nat \<Rightarrow> fval" where
  "yloc s t p = fsub (ypos s t p) (Fin 0.5)"

definition yloc_stag :: "state \<Rightarrow> nat \<Rightarrow> nat \<Rightarrow> fval" where
  "yloc_stag s t p = ypos s t p"

definition zloc :: "state \<Rightarrow> nat \<Rightarrow> nat \<Rightarrow> fval" where
  "zloc s t p = fsub (zpos s t p) (Fin 0.5)"

definition zloc_stag :: "state \<Rightarrow> nat \<Rightarrow> nat \<Rightarrow> fval" where
  "zloc_stag s t p = zpos s t p"

definition coord_u :: "settings \<Rightarrow> state \<Rightarrow> nat \<Rightarrow> nat \<Rightarrow> fval \<times> fval \<times> fval" where
  "coord_u cfg s t p =
     (if staggered cfg = ''Y'' then (zloc s t p, yloc s t p, xloc_stag s t p)
      else (zloc s t p, yloc s t p, xloc s t p))"

definition coord_v :: "settings \<Rightarrow> state \<Rightarrow> nat \<Rightarrow> nat \<Rightarrow> fval \<times> fval \<times> fval" where
  "coord_v cfg s t p =
     (if staggered cfg = ''Y'' then (zloc s t p, yloc_stag s t p, xloc s t p)
      else (zloc s t p, yloc s t p, xloc s t p))"

definition coord_w :: "settings \<Rightarrow> state \<Rightarrow> nat \<Rightarrow> nat \<Rightarrow> fval \<times> fval \<times> fval" where
  "coord_w cfg s t p =
     (if staggered cfg = ''Y'' then (zloc_stag s t p, yloc s t p, xloc s t p)
      else (zloc s t p, yloc s t p, xloc s t p))"

text \<open>Scalar coordinates for all other variables.\<close>

definition coord :: "state \<Rightarrow> nat \<Rightarrow> nat \<Rightarrow> fval \<times> fval \<times> fval" where
  "coord s t p = (zloc s t p, yloc s t p, xloc s t p)"

definition coord_zs :: "state \<Rightarrow> nat \<Rightarrow> nat \<Rightarrow> fval \<times> fval" where
  "coord_zs s t p = (yloc s t p, xloc s t p)"

subsection \<open>The interpolation calls\<close>

text \<open>
  Each \<^verbatim>\<open>interpolate.interpn\<close> call of the notebook, with the grid, the array, the
  coordinate list and the fill value it is written with.
\<close>

text \<open>Cell "Determine Initial Height": \<^verbatim>\<open>interpn((z,y,x), zh, coord_height, fill_value=0)\<close>\<close>

definition interp_zh :: "dataset \<Rightarrow> state \<Rightarrow> nat \<Rightarrow> nat \<Rightarrow> fval" where
  "interp_zh ds s t p = interpn3 (grid_zyx ds) (zh ds) (Fin 0) (coord s t p)"

text \<open>\<^verbatim>\<open>interpn((z,y,x), u, coord_u, fill_value=np.nan)\<close>\<close>

definition interp_u :: "dataset \<Rightarrow> settings \<Rightarrow> nat \<Rightarrow> state \<Rightarrow> nat \<Rightarrow> nat \<Rightarrow> fval" where
  "interp_u ds cfg k s t p = interpn3 (grid_zyx ds) (uinterp ds k) NaN (coord_u cfg s t p)"

text \<open>\<^verbatim>\<open>interpn((z,y,x), v, coord_v, fill_value=np.nan)\<close>\<close>

definition interp_v :: "dataset \<Rightarrow> settings \<Rightarrow> nat \<Rightarrow> state \<Rightarrow> nat \<Rightarrow> nat \<Rightarrow> fval" where
  "interp_v ds cfg k s t p = interpn3 (grid_zyx ds) (vinterp ds k) NaN (coord_v cfg s t p)"

text \<open>\<^verbatim>\<open>interpn((z,y,x), w, coord_w, fill_value= 0)\<close>\<close>

definition interp_w :: "dataset \<Rightarrow> settings \<Rightarrow> nat \<Rightarrow> state \<Rightarrow> nat \<Rightarrow> nat \<Rightarrow> fval" where
  "interp_w ds cfg k s t p = interpn3 (grid_zyx ds) (winterp ds k) (Fin 0) (coord_w cfg s t p)"

text \<open>\<^verbatim>\<open>interpn((z[:-1],y,x), vert_resolution, coord, fill_value= np.nan)\<close>\<close>

definition interp_vert_res :: "dataset \<Rightarrow> state \<Rightarrow> nat \<Rightarrow> nat \<Rightarrow> fval" where
  "interp_vert_res ds s t p = interpn3 (grid_vert ds) (vert_resolution ds) NaN (coord s t p)"

text \<open>\<^verbatim>\<open>interpn((y,x), zs, coord_zs, fill_value= np.nan)\<close>\<close>

definition surface_height :: "dataset \<Rightarrow> state \<Rightarrow> nat \<Rightarrow> nat \<Rightarrow> fval" where
  "surface_height ds s t p = interpn2 (grid_yx ds) (surface_grid ds) NaN (coord_zs s t p)"

text \<open>\<^verbatim>\<open>interpn((z,y,x), var1, coord, fill_value= np.nan)\<close>\<close>

definition interp_var1 :: "dataset \<Rightarrow> arr3 \<Rightarrow> state \<Rightarrow> nat \<Rightarrow> nat \<Rightarrow> fval" where
  "interp_var1 ds a s t p = interpn3 (grid_zyx ds) a NaN (coord s t p)"

text \<open>
  The conversion of the loop from metres above sea level to grid points above the
  surface: \<^verbatim>\<open>(zpos_heightASL - surface_height)/zpos_vert_res\<close>.
\<close>

definition index_from_height :: "fval \<Rightarrow> fval \<Rightarrow> fval \<Rightarrow> fval" where
  "index_from_height h surface vres = fdiv (fsub h surface) vres"

subsection \<open>Initial state\<close>

text \<open>
  Cells "Create empty arrays", "Initial location of parcels" and "Determine Initial
  Height of Parcels Above Sea Level". Writing row 0 of an array without rows raises.
\<close>

definition seeded :: "settings \<Rightarrow> state" where
  "seeded cfg =
     \<lparr> xpos = zeros(0 := \<lambda>p. Fin (seed_x cfg p)),
       ypos = zeros(0 := \<lambda>p. Fin (seed_y cfg p)),
       zpos = zeros(0 := \<lambda>p. Fin (seed_z cfg p)),
       zpos_heightASL = zeros,
       zpos_vert_res = zeros,
       variable1 = zeros,
       var1 = None \<rparr>"

definition initial :: "dataset \<Rightarrow> settings \<Rightarrow> state" where
  "initial ds cfg =
     (let s = seeded cfg
      in s\<lparr>zpos_heightASL := (zpos_heightASL s)(0 := \<lambda>p. interp_zh ds s 0 p)\<rparr>)"

definition initialize :: "dataset \<Rightarrow> settings \<Rightarrow> error + state" where
  "initialize ds cfg =
     (if time_steps cfg = 0 then Inl IndexError else Inr (initial ds cfg))"

subsection \<open>One pass of the loop\<close>

text \<open>The lower bound of the clip: \<open>0.5\<close> on the staggered grid, \<open>0\<close> otherwise.\<close>

definition zpos_min :: "settings \<Rightarrow> real" where
  "zpos_min cfg = (if staggered cfg = ''Y'' then 0.5 else 0)"

text \<open>
  The body of the loop for step \<open>t\<close>, with the model data of output time \<open>k\<close>. The
  coordinate lists are built from row \<open>t\<close> before any array is written; the writes go to
  row \<open>t + 1\<close> of the positions and to row \<open>t\<close> of the grid spacing and of the tracked
  variable, and the clip replaces the whole array \<^verbatim>\<open>zpos\<close>.
\<close>

definition integrate :: "dataset \<Rightarrow> settings \<Rightarrow> nat \<Rightarrow> nat \<Rightarrow> state \<Rightarrow> state" where
  "integrate ds cfg k t s =
     (let var1' = variable ds (var_name1 cfg) k;
          s1 = s\<lparr>xpos := (xpos s)(t + 1 := \<lambda>p.
                 fsub (xpos s t p)
                   (fdiv (fmul (interp_u ds cfg k s t p) (Fin (time_step_length ds)))
                      (Fin (hor_resolution ds))))\<rparr>;
          s2 = s1\<lparr>ypos := (ypos s1)(t + 1 := \<lambda>p.
                 fsub (ypos s1 t p)
                   (fdiv (fmul (interp_v ds cfg k s t p) (Fin (time_step_length ds)))
                      (Fin (hor_resolution ds))))\<rparr>;
          s3 = s2\<lparr>zpos_heightASL := (zpos_heightASL s2)(t + 1 := \<lambda>p.
                 fsub (zpos_heightASL s2 t p)
                   (fmul (interp_w ds cfg k s t p) (Fin (time_step_length ds))))\<rparr>;
          s4 = s3\<lparr>zpos_vert_res := (zpos_vert_res s3)(t := \<lambda>p. interp_vert_res ds s t p)\<rparr>;
          s5 = s4\<lparr>zpos := (zpos s4)(t + 1 := \<lambda>p.
                 index_from_height (zpos_heightASL s4 (t + 1) p)
                   (surface_height ds s4 (t + 1) p) (zpos_vert_res s4 t p))\<rparr>;
          s6 = s5\<lparr>zpos := (\<lambda>t' p. clip_min (zpos_min cfg) (zpos s5 t' p))\<rparr>;
          s7 = s6\<lparr>variable1 := (variable1 s6)(t := \<lambda>p. interp_var1 ds var1' s t p)\<rparr>
      in s7\<lparr>var1 := Some var1'\<rparr>)"

definition step :: "dataset \<Rightarrow> settings \<Rightarrow> nat \<Rightarrow> state \<Rightarrow> error + state" where
  "step ds cfg t s =
     (case snapshot ds cfg t of
        Inl e \<Rightarrow> Inl e
      | Inr k \<Rightarrow> Inr (integrate ds cfg k t s))"

text \<open>\<^verbatim>\<open>for t in range(time_steps-1)\<close>, over the list of the values of \<open>t\<close>.\<close>

fun run_loop :: "dataset \<Rightarrow> settings \<Rightarrow> nat list \<Rightarrow> state \<Rightarrow> error + state" where
  "run_loop ds cfg [] s = Inr s"
| "run_loop ds cfg (t # ts) s =
     (case step ds cfg t s of
        Inl e \<Rightarrow> Inl e
      | Inr s' \<Rightarrow> run_loop ds cfg ts s')"

subsection \<open>The tracked variable at the final time step\<close>

text \<open>
  Cell "Get variable data for final time step": \<^verbatim>\<open>t = time_steps-1\<close>, the scalar
  coordinates of row \<open>t\<close>, and an interpolation of \<^verbatim>\<open>var1\<close>, the name the loop bound
  last. The name is unbound when the loop has not run.
\<close>

definition final_sample :: "dataset \<Rightarrow> settings \<Rightarrow> state \<Rightarrow> error + state" where
  "final_sample ds cfg s =
     (let t = time_steps cfg - 1
      in case var1 s of
           None \<Rightarrow> Inl NameError
         | Some a \<Rightarrow> Inr (s\<lparr>variable1 := (variable1 s)(t := \<lambda>p. interp_var1 ds a s t p)\<rparr>))"

text \<open>The notebook from the first cell to the last.\<close>

definition trajectories :: "dataset \<Rightarrow> settings \<Rightarrow> error + state" where
  "trajectories ds cfg =
     (case initialize ds cfg of
        Inl e \<Rightarrow> Inl e
      | Inr s0 \<Rightarrow>
          (case run_loop ds cfg [0..<time_steps cfg - 1] s0 of
             Inl e \<Rightarrow> Inl e
           | Inr s \<Rightarrow> final_sample ds cfg s))"

subsection \<open>Grids and query points\<close>

text \<open>
  A data set whose grids have at least two points on every axis, the grid \<^verbatim>\<open>z[:-1]\<close>
  of the vertical spacing included.
\<close>

definition regular_grid :: "dataset \<Rightarrow> bool" where
  "regular_grid ds = (3 \<le> nz ds \<and> 2 \<le> ny ds \<and> 2 \<le> nx ds)"

text \<open>
  A query point with three finite coordinates lies inside a grid when no coordinate is
  out of the bounds of its axis, and outside when one is.
\<close>

fun inside3 :: "real list \<times> real list \<times> real list \<Rightarrow> fval \<times> fval \<times> fval \<Rightarrow> bool" where
  "inside3 (gz, gy, gx) (Fin z, Fin y, Fin x) =
     (\<not> out_of_bounds gz z \<and> \<not> out_of_bounds gy y \<and> \<not> out_of_bounds gx x)"
| "inside3 (gz, gy, gx) (z, y, x) = False"

fun outside3 :: "real list \<times> real list \<times> real list \<Rightarrow> fval \<times> fval \<times> fval \<Rightarrow> bool" where
  "outside3 (gz, gy, gx) (Fin z, Fin y, Fin x) =
     (out_of_bounds gz z \<or> out_of_bounds gy y \<or> out_of_bounds gx x)"
| "outside3 (gz, gy, gx) (z, y, x) = False"

fun outside2 :: "real list \<times> real list \<Rightarrow> fval \<times> fval \<Rightarrow> bool" where
  "outside2 (gy, gx) (Fin y, Fin x) = (out_of_bounds gy y \<or> out_of_bounds gx x)"
| "outside2 (gy, gx) (y, x) = False"

subsection \<open>Example runs\<close>

text \<open>
  A domain of \<open>5 \<times> 20 \<times> 20\<close> grid points without terrain, levels 100 m apart, 1000 m
  between grid points, 60 s between output times, a uniform eastward wind of 10 m/s,
  and a tracked variable that differs from one output time to the next.
\<close>

definition flat_ds :: dataset where
  "flat_ds =
     \<lparr> nx = 20, ny = 20, nz = 5, nt = 5,
       uinterp = (\<lambda>k l j i. Fin 10), vinterp = (\<lambda>k l j i. Fin 0),
       winterp = (\<lambda>k l j i. Fin 0),
       variable = (\<lambda>name k l j i. Fin (300 + real k)),
       zh = (\<lambda>l j i. Fin (50 + 100 * real l)), zs = None,
       hor_resolution = 1000, time_step_length = 60 \<rparr>"

text \<open>One parcel seeded at \<open>x = 10\<close>, \<open>y = 10\<close>, \<open>z = 2\<close>, traced back over five time steps.\<close>

definition flat_cfg :: settings where
  "flat_cfg =
     \<lparr> num_seeds_z = 1, num_seeds_y = 1, time_steps = 5, start_time_step = 4,
       var_name1 = ''th'', staggered = ''N'',
       seed_x = (\<lambda>p. 10), seed_y = (\<lambda>p. 10), seed_z = (\<lambda>p. 2) \<rparr>"

text \<open>The same parcel with the velocity components on the staggered grid.\<close>

definition stag_cfg :: settings where
  "stag_cfg = flat_cfg\<lparr>staggered := ''Y''\<rparr>"

text \<open>The same parcel over two time steps, from output time 1.\<close>

definition short_cfg :: settings where
  "short_cfg = flat_cfg\<lparr>time_steps := 2, start_time_step := 1\<rparr>"

text \<open>A parcel seeded on the lowest grid point, \<open>z = 0\<close>.\<close>

definition ground_cfg :: settings where
  "ground_cfg = short_cfg\<lparr>seed_z := (\<lambda>p. 0)\<rparr>"

text \<open>A parcel seeded east of the domain, at \<open>x = 100\<close>.\<close>

definition far_cfg :: settings where
  "far_cfg = short_cfg\<lparr>seed_x := (\<lambda>p. 100)\<rparr>"


text \<open>The domain with a uniform vertical velocity of 1 m/s.\<close>

definition updraft_ds :: dataset where
  "updraft_ds = flat_ds\<lparr>winterp := (\<lambda>k l j i. Fin 1)\<rparr>"


text \<open>The domain with a northward wind of 25 m/s added to the eastward wind.\<close>

definition crosswind_ds :: dataset where
  "crosswind_ds = flat_ds\<lparr>vinterp := (\<lambda>k l j i. Fin 25)\<rparr>"

text \<open>
  The domain with a stretched grid, the levels at 50, 150, 450, 950 and 1650 m, and the
  air at rest.
\<close>

definition still_ds :: dataset where
  "still_ds =
     flat_ds\<lparr>uinterp := (\<lambda>k l j i. Fin 0), zh := (\<lambda>l j i. Fin (50 + 100 * real (l * l)))\<rparr>"

text \<open>
  The domain over terrain that rises eastward by 128 m per grid point, with levels whose
  spacing \<open>8 i + 52\<close> m grows eastward too, and an eastward wind of 12.5 m/s, which is
  0.75 grid units in 60 s.
\<close>

definition slope_ds :: dataset where
  "slope_ds =
     flat_ds\<lparr>uinterp := (\<lambda>k l j i. Fin 12.5),
       zs := Some (\<lambda>j i. Fin (128 * real i)),
       zh := (\<lambda>l j i. Fin (128 * real i + (real l + 1 / 2) * (8 * real i + 52)))\<rparr>"


text \<open>
  A \<open>3 \<times> 3 \<times> 3\<close> array that holds not-a-number at index \<open>(0, 0, 0)\<close> and the number
  \<open>100 l + 10 j + i\<close> elsewhere.
\<close>

definition masked_field :: arr3 where
  "masked_field = (\<lambda>l j i. if l = 0 \<and> j = 0 \<and> i = 0 then NaN else Fin (100 * real l + 10 * real j + real i))"

section \<open>Properties\<close>

subsection \<open>Facts about the arithmetic\<close>

lemma fsub_Fin [simp]: "fsub (Fin a) (Fin b) = Fin (a - b)"
  by (simp add: fsub_def)

lemma fsub_zero [simp]: "fsub h (Fin 0) = h"
  by (cases h) (simp_all add: fsub_def)


lemma fsub_NaN_right [simp]: "fsub v NaN = NaN"
  by (cases v) (simp_all add: fsub_def)

lemma fsub_NaN_left [simp]: "fsub NaN v = NaN"
  by (simp add: fsub_def)

lemma fdiv_NaN_right [simp]: "fdiv v NaN = NaN"
  by (cases v) simp_all

lemma clip_min_ge: "clip_min m v = NaN \<or> fge (clip_min m v) m"
  by (cases v) simp_all


lemma clip_min_not_below: "\<not> flt (clip_min m v) m"
  by (cases v) simp_all

lemma fadd_zero_left: "fadd (Fin 0) v = v"
  by (cases v) simp_all

lemma fmul_one_right: "fmul v (Fin 1) = v"
  by (cases v) (simp_all add: inf_of_sign_def)

lemma fmul_zero_right: "isfinite v \<Longrightarrow> fmul v (Fin 0) = Fin 0"
  by (cases v) simp_all

subsection \<open>Facts about the grid\<close>

lemma length_arange: "length (arange n) = n"
  by (simp add: arange_def)

lemma nth_arange: "i < n \<Longrightarrow> arange n ! i = real i"
  by (simp add: arange_def)

lemma searchsorted_arange: "searchsorted (arange n) (real k) = min k n"
  by (induction n) (auto simp: searchsorted_def arange_def)

lemma searchsorted_arange_real: "searchsorted (arange n) x = min (nat \<lceil>x\<rceil>) n"
proof (induction n)
  case 0
  show ?case by (simp add: searchsorted_def arange_def)
next
  case (Suc n)
  have "(real n < x) = (n < nat \<lceil>x\<rceil>)"
    by (metis less_ceiling_iff of_int_of_nat_eq zless_nat_eq_int_zless)
  with Suc show ?case
    by (auto simp: searchsorted_def arange_def)
qed

lemma find_index_arange:
  "find_index (arange n) x = min (min (nat \<lceil>x\<rceil>) n - 1) (n - 2)"
  by (simp add: find_index_def searchsorted_arange_real length_arange)

lemma find_index_le: "find_index (arange n) x \<le> n - 2"
  by (simp add: find_index_def length_arange)

lemma find_index_arange_less:
  assumes "2 \<le> n"
  shows "find_index (arange n) x < n" "find_index (arange n) x + 1 < n"
  using assms find_index_le [of n x] by simp_all

lemma norm_distance_arange:
  "2 \<le> n \<Longrightarrow> norm_distance (arange n) x = x - real (find_index (arange n) x)"
  by (simp add: norm_distance_def Let_def find_index_def length_arange nth_arange)

lemma find_index_arange_grid:
  "2 \<le> n \<Longrightarrow> k < n \<Longrightarrow> find_index (arange n) (real k) = k - 1"
  by (auto simp: find_index_def searchsorted_arange length_arange)

lemma out_of_bounds_arange:
  "1 \<le> n \<Longrightarrow> out_of_bounds (arange n) x = (x < 0 \<or> x > real (n - 1))"
  by (simp add: out_of_bounds_def length_arange nth_arange)

lemma out_of_bounds_arange_mono:
  assumes "1 \<le> m" "m \<le> n" "\<not> out_of_bounds (arange m) x"
  shows "\<not> out_of_bounds (arange n) x"
proof -
  from assms have "real (m - 1) \<le> real (n - 1)"
    by simp
  with assms show ?thesis
    by (simp add: out_of_bounds_arange)
qed

lemma find_index_arange_interior:
  assumes "0 < k" "k < n"
  shows "find_index (arange n) (real k) = k - 1" "norm_distance (arange n) (real k) = 1"
proof -
  from assms have n: "2 \<le> n"
    by simp
  from assms show i: "find_index (arange n) (real k) = k - 1"
    by (simp add: find_index_arange_grid [OF n])
  from assms have "real k - real (k - 1) = 1"
    by simp
  then show "norm_distance (arange n) (real k) = 1"
    by (simp add: norm_distance_arange [OF n] i)
qed

subsection \<open>Facts about the interpolation\<close>

text \<open>On an array of finite values the interpolation is the weighted sum in the reals.\<close>

lemma evaluate_linear3_Fin:
  "evaluate_linear3 g (\<lambda>l j i. Fin (a l j i)) xi = Fin (linear3 g a xi)"
  by (cases g, cases xi) (simp add: evaluate_linear3_def linear3_def Let_def)

lemma evaluate_linear2_Fin:
  "evaluate_linear2 g (\<lambda>j i. Fin (a j i)) xi = Fin (linear2 g a xi)"
  by (cases g, cases xi) (simp add: evaluate_linear2_def linear2_def Let_def)

lemma linear3_const: "linear3 g (\<lambda>k j i. c) xi = c"
  by (cases g, cases xi) (simp add: linear3_def Let_def weight_def algebra_simps)

lemma linear2_const: "linear2 g (\<lambda>j i. c) xi = c"
  by (cases g, cases xi) (simp add: linear2_def Let_def weight_def algebra_simps)

text \<open>A field that is a horizontal field plus a function of the level.\<close>

lemma linear3_split:
  "linear3 (gz, gy, gx) (\<lambda>k j i. a j i + b k) (z, y, x) =
     linear2 (gy, gx) a (y, x)
     + (b (find_index gz z) * (1 - norm_distance gz z)
        + b (find_index gz z + 1) * norm_distance gz z)"
  by (simp add: linear3_def linear2_def Let_def weight_def algebra_simps)

lemma evaluate_linear3_cong:
  assumes "2 \<le> n\<^sub>z" "2 \<le> n\<^sub>y" "2 \<le> n\<^sub>x"
    and "\<And>l j i. l < n\<^sub>z \<Longrightarrow> j < n\<^sub>y \<Longrightarrow> i < n\<^sub>x \<Longrightarrow> f l j i = g l j i"
  shows "evaluate_linear3 (arange n\<^sub>z, arange n\<^sub>y, arange n\<^sub>x) f (z, y, x)
       = evaluate_linear3 (arange n\<^sub>z, arange n\<^sub>y, arange n\<^sub>x) g (z, y, x)"
  using find_index_arange_less [OF assms(1), of z] find_index_arange_less [OF assms(2), of y]
    find_index_arange_less [OF assms(3), of x]
  by (simp add: evaluate_linear3_def Let_def assms(4))

lemma evaluate_linear2_cong:
  assumes "2 \<le> n\<^sub>y" "2 \<le> n\<^sub>x"
    and "\<And>j i. j < n\<^sub>y \<Longrightarrow> i < n\<^sub>x \<Longrightarrow> f j i = g j i"
  shows "evaluate_linear2 (arange n\<^sub>y, arange n\<^sub>x) f (y, x)
       = evaluate_linear2 (arange n\<^sub>y, arange n\<^sub>x) g (y, x)"
  using find_index_arange_less [OF assms(1), of y] find_index_arange_less [OF assms(2), of x]
  by (simp add: evaluate_linear2_def Let_def assms(3))

lemma lerp_levels:
  "(real i + 1 / 2) * dz * (1 - (z - real i)) + (real (i + 1) + 1 / 2) * dz * (z - real i)
     = (z + 1 / 2) * dz"
  by (simp add: field_simps)


subsection \<open>The arrays after one pass of the loop\<close>

lemma xpos_integrate:
  "xpos (integrate ds cfg k t s) t' p =
     (if t' = t + 1
      then fsub (xpos s t p)
             (fdiv (fmul (interp_u ds cfg k s t p) (Fin (time_step_length ds)))
                (Fin (hor_resolution ds)))
      else xpos s t' p)"
  by (simp add: integrate_def Let_def)

lemma ypos_integrate:
  "ypos (integrate ds cfg k t s) t' p =
     (if t' = t + 1
      then fsub (ypos s t p)
             (fdiv (fmul (interp_v ds cfg k s t p) (Fin (time_step_length ds)))
                (Fin (hor_resolution ds)))
      else ypos s t' p)"
  by (simp add: integrate_def Let_def)

lemma zpos_heightASL_integrate:
  "zpos_heightASL (integrate ds cfg k t s) t' p =
     (if t' = t + 1
      then fsub (zpos_heightASL s t p)
             (fmul (interp_w ds cfg k s t p) (Fin (time_step_length ds)))
      else zpos_heightASL s t' p)"
  by (simp add: integrate_def Let_def)

lemma zpos_vert_res_integrate:
  "zpos_vert_res (integrate ds cfg k t s) t' p =
     (if t' = t then interp_vert_res ds s t p else zpos_vert_res s t' p)"
  by (simp add: integrate_def Let_def)

lemma zpos_integrate:
  "zpos (integrate ds cfg k t s) t' p =
     clip_min (zpos_min cfg)
       (if t' = t + 1
        then index_from_height (zpos_heightASL (integrate ds cfg k t s) (t + 1) p)
               (surface_height ds (integrate ds cfg k t s) (t + 1) p)
               (zpos_vert_res (integrate ds cfg k t s) t p)
        else zpos s t' p)"
  by (simp add: integrate_def Let_def surface_height_def coord_zs_def xloc_def yloc_def)

lemma variable1_integrate:
  "variable1 (integrate ds cfg k t s) t' p =
     (if t' = t then interp_var1 ds (variable ds (var_name1 cfg) k) s t p
      else variable1 s t' p)"
  by (simp add: integrate_def Let_def)

lemma var1_integrate:
  "var1 (integrate ds cfg k t s) = Some (variable ds (var_name1 cfg) k)"
  by (simp add: integrate_def Let_def)

lemma step_Inr:
  "step ds cfg t s = Inr s' \<Longrightarrow> \<exists>k. snapshot ds cfg t = Inr k \<and> s' = integrate ds cfg k t s"
  by (auto simp: step_def split: sum.splits)

lemma step_snapshot:
  "snapshot ds cfg t = Inr k \<Longrightarrow> step ds cfg t s = Inr (integrate ds cfg k t s)"
  by (simp add: step_def)

lemma step_frame:
  assumes "step ds cfg t s = Inr s'" "t' \<noteq> t + 1"
  shows "xpos s' t' = xpos s t'" "ypos s' t' = ypos s t'"
    "zpos_heightASL s' t' = zpos_heightASL s t'"
    "zpos s' t' p = clip_min (zpos_min cfg) (zpos s t' p)"
proof -
  from step_Inr [OF assms(1)] obtain k where s': "s' = integrate ds cfg k t s"
    by blast
  from assms(2) show "xpos s' t' = xpos s t'" "ypos s' t' = ypos s t'"
    "zpos_heightASL s' t' = zpos_heightASL s t'"
    by (simp_all add: s' fun_eq_iff xpos_integrate ypos_integrate zpos_heightASL_integrate)
  from assms(2) show "zpos s' t' p = clip_min (zpos_min cfg) (zpos s t' p)"
    unfolding s' by (subst zpos_integrate) simp
qed

lemma step_vert_res_frame:
  assumes "step ds cfg t s = Inr s'" "t' \<noteq> t"
  shows "zpos_vert_res s' t' p = zpos_vert_res s t' p"
proof -
  from step_Inr [OF assms(1)] obtain k where "s' = integrate ds cfg k t s"
    by blast
  with assms(2) show ?thesis
    by (simp add: zpos_vert_res_integrate)
qed



subsection \<open>The arrays over a run\<close>

lemma initial_row0:
  "xpos (initial ds cfg) 0 p = Fin (seed_x cfg p)"
  "ypos (initial ds cfg) 0 p = Fin (seed_y cfg p)"
  "zpos (initial ds cfg) 0 p = Fin (seed_z cfg p)"
  "zpos_heightASL (initial ds cfg) 0 p = interp_zh ds (seeded cfg) 0 p"
  "zpos_vert_res (initial ds cfg) t p = Fin 0"
  "var1 (initial ds cfg) = None"
  by (simp_all add: initial_def seeded_def Let_def zeros_def)

lemma initial_positions:
  "xpos (initial ds cfg) = xpos (seeded cfg)" "ypos (initial ds cfg) = ypos (seeded cfg)"
  "zpos (initial ds cfg) = zpos (seeded cfg)"
  by (simp_all add: initial_def Let_def)

lemma initial_interp:
  "interp_zh ds' (initial ds cfg) t p = interp_zh ds' (seeded cfg) t p"
  "interp_vert_res ds' (initial ds cfg) t p = interp_vert_res ds' (seeded cfg) t p"
  "surface_height ds' (initial ds cfg) t p = surface_height ds' (seeded cfg) t p"
  "coord (initial ds cfg) t p = coord (seeded cfg) t p"
  by (simp_all add: interp_zh_def interp_vert_res_def surface_height_def coord_def coord_zs_def
      xloc_def yloc_def zloc_def initial_positions)

lemma run_loop_append:
  "run_loop ds cfg (ts @ us) s =
     (case run_loop ds cfg ts s of Inl e \<Rightarrow> Inl e | Inr s' \<Rightarrow> run_loop ds cfg us s')"
  by (induction ts arbitrary: s) (auto split: sum.splits)

lemma run_loop_Suc:
  assumes "run_loop ds cfg [0..<Suc m] s0 = Inr s"
  obtains s1 where "run_loop ds cfg [0..<m] s0 = Inr s1" "step ds cfg m s1 = Inr s"
  using assms by (auto simp: run_loop_append split: sum.splits)

lemma run_loop_last_var1:
  "run_loop ds cfg (ts @ [t]) s = Inr s'
     \<Longrightarrow> \<exists>k. snapshot ds cfg t = Inr k \<and> var1 s' = Some (variable ds (var_name1 cfg) k)"
proof (induction ts arbitrary: s)
  case Nil
  then obtain s1 where "step ds cfg t s = Inr s1" "s' = s1"
    by (auto split: sum.splits)
  with step_Inr [of ds cfg t s s1] show ?case
    by (auto simp: var1_integrate)
next
  case (Cons u ts)
  from Cons.prems obtain s1 where "run_loop ds cfg (ts @ [t]) s1 = Inr s'"
    by (auto split: sum.splits)
  then show ?case by (rule Cons.IH)
qed

lemma run_loop_var1:
  "run_loop ds cfg ts s = Inr s' \<Longrightarrow> ts \<noteq> [] \<Longrightarrow> var1 s' \<noteq> None"
  using run_loop_last_var1 [of ds cfg "butlast ts" "last ts" s s'] by auto

lemma snapshot_Inr_iff:
  "(\<exists>k. snapshot ds cfg t = Inr k) \<longleftrightarrow>
     - int (nt ds) \<le> int (start_time_step cfg) - int t
     \<and> int (start_time_step cfg) - int t < int (nt ds)"
  by (auto simp: snapshot_def time_index_def Let_def)

lemma run_loop_returns:
  "\<forall>t \<in> set ts. \<exists>k. snapshot ds cfg t = Inr k \<Longrightarrow> \<exists>s'. run_loop ds cfg ts s = Inr s'"
proof (induction ts arbitrary: s)
  case Nil
  show ?case by simp
next
  case (Cons t ts)
  from Cons.prems obtain k where "snapshot ds cfg t = Inr k"
    by auto
  then have "step ds cfg t s = Inr (integrate ds cfg k t s)"
    by (simp add: step_def)
  with Cons show ?case by simp
qed

lemma final_sample_integrate:
  "final_sample ds cfg (integrate ds cfg k t s) =
     Inr ((integrate ds cfg k t s)\<lparr>variable1 := (variable1 (integrate ds cfg k t s))
            (time_steps cfg - 1 := \<lambda>p. interp_var1 ds (variable ds (var_name1 cfg) k)
               (integrate ds cfg k t s) (time_steps cfg - 1) p)\<rparr>)"
  by (simp add: final_sample_def var1_integrate Let_def)

lemma final_sample_frame:
  assumes "final_sample ds cfg s = Inr s'"
  shows "xpos s' = xpos s" "ypos s' = ypos s" "zpos s' = zpos s"
    "zpos_heightASL s' = zpos_heightASL s" "zpos_vert_res s' = zpos_vert_res s"
  using assms by (auto simp: final_sample_def Let_def split: option.splits)

lemma trajectories_returns:
  assumes "2 \<le> time_steps cfg"
    and "\<forall>t < time_steps cfg - 1. \<exists>k. snapshot ds cfg t = Inr k"
  shows "\<exists>s. trajectories ds cfg = Inr s"
proof -
  from assms(2) obtain s1
    where loop: "run_loop ds cfg [0..<time_steps cfg - 1] (initial ds cfg) = Inr s1"
    using run_loop_returns [of "[0..<time_steps cfg - 1]" ds cfg "initial ds cfg"] by auto
  from assms(1) have "[0..<time_steps cfg - 1] \<noteq> []"
    by simp
  with run_loop_var1 [OF loop] obtain a where "var1 s1 = Some a"
    by auto
  with loop assms(1) show ?thesis
    by (simp add: trajectories_def initialize_def final_sample_def Let_def)
qed

lemma trajectories_Inr_projr:
  "\<exists>s. trajectories ds cfg = Inr s \<Longrightarrow> trajectories ds cfg = Inr (projr (trajectories ds cfg))"
  by auto

lemma trajectories_no_rows: "time_steps cfg = 0 \<Longrightarrow> trajectories ds cfg = Inl IndexError"
  by (simp add: trajectories_def initialize_def)

lemma trajectories_one_row: "time_steps cfg = 1 \<Longrightarrow> trajectories ds cfg = Inl NameError"
  by (simp add: trajectories_def initialize_def final_sample_def Let_def initial_row0)

lemma trajectories_two_steps:
  assumes "time_steps cfg = 2" "snapshot ds cfg 0 = Inr k"
  shows "trajectories ds cfg = final_sample ds cfg (integrate ds cfg k 0 (initial ds cfg))"
  using assms by (simp add: trajectories_def initialize_def step_def)

lemma trajectories_two_steps_fields:
  assumes "time_steps cfg = 2" "snapshot ds cfg 0 = Inr k"
  shows "trajectories ds cfg = Inr (projr (trajectories ds cfg))"
    and "xpos (projr (trajectories ds cfg)) = xpos (integrate ds cfg k 0 (initial ds cfg))"
    and "ypos (projr (trajectories ds cfg)) = ypos (integrate ds cfg k 0 (initial ds cfg))"
    and "zpos (projr (trajectories ds cfg)) = zpos (integrate ds cfg k 0 (initial ds cfg))"
    and "zpos_heightASL (projr (trajectories ds cfg))
           = zpos_heightASL (integrate ds cfg k 0 (initial ds cfg))"
    and "zpos_vert_res (projr (trajectories ds cfg))
           = zpos_vert_res (integrate ds cfg k 0 (initial ds cfg))"
    and "variable1 (projr (trajectories ds cfg)) (Suc 0) p
           = interp_var1 ds (variable ds (var_name1 cfg) k)
               (integrate ds cfg k 0 (initial ds cfg)) (Suc 0) p"
  by (simp_all add: trajectories_two_steps [OF assms] final_sample_integrate assms(1))

lemma run_loop_vert_res_frame:
  "run_loop ds cfg ts s = Inr s' \<Longrightarrow> t' \<notin> set ts
     \<Longrightarrow> zpos_vert_res s' t' p = zpos_vert_res s t' p"
proof (induction ts arbitrary: s)
  case Nil
  then show ?case by simp
next
  case (Cons t ts)
  from Cons.prems(1) obtain s1 where s1: "step ds cfg t s = Inr s1"
    and rest: "run_loop ds cfg ts s1 = Inr s'"
    by (auto split: sum.splits)
  from Cons.prems(2) have "t' \<noteq> t" "t' \<notin> set ts"
    by auto
  with Cons.IH [OF rest] step_vert_res_frame [OF s1] show ?case
    by simp
qed



text \<open>
  What the cell after the loop records: the tracked variable of the output time that
  the last pass of the loop read, which is the pass for step \<open>time_steps - 2\<close>,
  interpolated at the positions of the final step \<open>time_steps - 1\<close>.
\<close>

lemma final_sample_snapshot:
  assumes "trajectories ds cfg = Inr s" "2 \<le> time_steps cfg"
  shows "\<exists>k. snapshot ds cfg (time_steps cfg - 2) = Inr k
           \<and> variable1 s (time_steps cfg - 1) p
               = interp_var1 ds (variable ds (var_name1 cfg) k) s (time_steps cfg - 1) p"
proof -
  from assms(1) obtain s1
    where loop: "run_loop ds cfg [0..<time_steps cfg - 1] (initial ds cfg) = Inr s1"
      and fin: "final_sample ds cfg s1 = Inr s"
    by (auto simp: trajectories_def initialize_def split: sum.splits if_splits)
  from assms(2) have "time_steps cfg - 1 = Suc (time_steps cfg - 2)"
    by simp
  then have "[0..<time_steps cfg - 1] = [0..<time_steps cfg - 2] @ [time_steps cfg - 2]"
    by simp
  with loop run_loop_last_var1 obtain k
    where k: "snapshot ds cfg (time_steps cfg - 2) = Inr k"
      "var1 s1 = Some (variable ds (var_name1 cfg) k)"
    by metis
  from fin k(2) have "variable1 s (time_steps cfg - 1) p
      = interp_var1 ds (variable ds (var_name1 cfg) k) s1 (time_steps cfg - 1) p"
    by (auto simp: final_sample_def Let_def)
  moreover from final_sample_frame [OF fin]
  have "coord s (time_steps cfg - 1) p = coord s1 (time_steps cfg - 1) p"
    by (simp add: coord_def xloc_def yloc_def zloc_def)
  ultimately show ?thesis
    using k(1) by (auto simp: interp_var1_def)
qed

subsection \<open>The example runs\<close>

lemma flat_ds_grid: "nx flat_ds = 20" "ny flat_ds = 20" "nz flat_ds = 5" "nt flat_ds = 5"
  by (simp_all add: flat_ds_def)

lemma flat_ds_fields:
  "uinterp flat_ds k = (\<lambda>l j i. Fin 10)" "vinterp flat_ds k = (\<lambda>l j i. Fin 0)"
  "winterp flat_ds k = (\<lambda>l j i. Fin 0)"
  "variable flat_ds name k = (\<lambda>l j i. Fin (300 + real k))"
  "zh flat_ds = (\<lambda>l j i. Fin (50 + 100 * real l))" "zs flat_ds = None"
  "hor_resolution flat_ds = 1000" "time_step_length flat_ds = 60"
  by (simp_all add: flat_ds_def)

lemma flat_cfg_simps:
  "time_steps flat_cfg = 5" "start_time_step flat_cfg = 4" "staggered flat_cfg = ''N''"
  "var_name1 flat_cfg = ''th''"
  "seed_x flat_cfg p = 10" "seed_y flat_cfg p = 10" "seed_z flat_cfg p = 2"
  by (simp_all add: flat_cfg_def)

lemma stag_cfg_simps:
  "time_steps stag_cfg = 5" "start_time_step stag_cfg = 4" "staggered stag_cfg = ''Y''"
  "seed_x stag_cfg p = 10" "seed_y stag_cfg p = 10" "seed_z stag_cfg p = 2"
  by (simp_all add: stag_cfg_def flat_cfg_def)

lemma short_cfg_simps:
  "time_steps short_cfg = 2" "start_time_step short_cfg = 1" "staggered short_cfg = ''N''"
  "var_name1 short_cfg = ''th''"
  "seed_x short_cfg p = 10" "seed_y short_cfg p = 10" "seed_z short_cfg p = 2"
  by (simp_all add: short_cfg_def flat_cfg_def)

lemma ground_cfg_simps:
  "time_steps ground_cfg = 2" "start_time_step ground_cfg = 1" "staggered ground_cfg = ''N''"
  "var_name1 ground_cfg = ''th''"
  "seed_x ground_cfg p = 10" "seed_y ground_cfg p = 10" "seed_z ground_cfg p = 0"
  by (simp_all add: ground_cfg_def short_cfg_def flat_cfg_def)

lemma far_cfg_simps:
  "time_steps far_cfg = 2" "start_time_step far_cfg = 1" "staggered far_cfg = ''N''"
  "var_name1 far_cfg = ''th''"
  "seed_x far_cfg p = 100" "seed_y far_cfg p = 10" "seed_z far_cfg p = 2"
  by (simp_all add: far_cfg_def short_cfg_def flat_cfg_def)



lemma updraft_ds_simps:
  "nx updraft_ds = 20" "ny updraft_ds = 20" "nz updraft_ds = 5" "nt updraft_ds = 5"
  "winterp updraft_ds k = (\<lambda>l j i. Fin 1)"
  by (simp_all add: updraft_ds_def flat_ds_def)

text \<open>
  The end-to-end setting: a \<open>5 \<times> 20 \<times> 20\<close> domain with levels 100 m apart above a
  surface at the height \<open>z\<^sub>0\<close>, 1000 m between grid points, 60 s between output times,
  \<open>u = 10\<close> m/s, \<open>v = w = 0\<close>, no stagger.
\<close>

lemma scenario_height:
  assumes "nx ds = 20" "ny ds = 20" "nz ds = 5"
    and "zh ds = (\<lambda>l j i. Fin (z\<^sub>0 + 50 + 100 * real l))"
    and "xpos s t p = Fin x" "ypos s t p = Fin 10" "zpos s t p = Fin 2"
    and "1 / 2 \<le> x" "x \<le> 39 / 2"
  shows "interp_zh ds s t p = Fin (z\<^sub>0 + 200)"
proof -
  have c: "coord s t p = (Fin (3 / 2), Fin (19 / 2), Fin (x - 1 / 2))"
    by (simp add: coord_def xloc_def yloc_def zloc_def assms)
  have "linear3 (arange 5, arange 20, arange 20) (\<lambda>l j i. z\<^sub>0 + 50 + 100 * real l)
          (3 / 2, 19 / 2, x - 1 / 2) = z\<^sub>0 + 200"
    using linear3_split [of "arange 5" "arange 20" "arange 20" "\<lambda>j i. z\<^sub>0 + 50"
        "\<lambda>l. 100 * real l" "3 / 2" "19 / 2" "x - 1 / 2"]
    by (simp add: evaluate_linear2_Fin linear2_const norm_distance_arange find_index_arange)
  with assms(8,9) show ?thesis
    by (simp add: interp_zh_def c grid_zyx_def assms(1-4) out_of_bounds_arange
        evaluate_linear3_Fin)
qed

lemma scenario_step:
  assumes grid: "nx ds = 20" "ny ds = 20" "nz ds = 5"
    and u: "uinterp ds k = (\<lambda>l j i. Fin 10)" and v: "vinterp ds k = (\<lambda>l j i. Fin 0)"
    and w: "winterp ds k = (\<lambda>l j i. Fin 0)"
    and res: "hor_resolution ds = 1000" "time_step_length ds = 60"
    and zh: "zh ds = (\<lambda>l j i. Fin (z\<^sub>0 + 50 + 100 * real l))"
    and zs: "surface_grid ds = (\<lambda>j i. Fin z\<^sub>0)"
    and cfg: "staggered cfg = ''N''"
    and rows: "xpos s t p = Fin x" "ypos s t p = Fin 10" "zpos s t p = Fin 2"
      "zpos_heightASL s t p = Fin (z\<^sub>0 + 200)"
    and x: "11 / 10 \<le> x" "x \<le> 39 / 2"
  shows "xpos (integrate ds cfg k t s) (Suc t) p = Fin (x - 3 / 5)"
    and "ypos (integrate ds cfg k t s) (Suc t) p = Fin 10"
    and "zpos_heightASL (integrate ds cfg k t s) (Suc t) p = Fin (z\<^sub>0 + 200)"
    and "zpos (integrate ds cfg k t s) (Suc t) p = Fin 2"
proof -
  let ?s' = "integrate ds cfg k t s"
  have c: "coord_u cfg s t p = (Fin (3 / 2), Fin (19 / 2), Fin (x - 1 / 2))"
    "coord_v cfg s t p = (Fin (3 / 2), Fin (19 / 2), Fin (x - 1 / 2))"
    "coord_w cfg s t p = (Fin (3 / 2), Fin (19 / 2), Fin (x - 1 / 2))"
    "coord s t p = (Fin (3 / 2), Fin (19 / 2), Fin (x - 1 / 2))"
    by (simp_all add: coord_u_def coord_v_def coord_w_def coord_def xloc_def yloc_def zloc_def
        rows cfg)
  from x have inx: "\<not> out_of_bounds (arange 20) (x - 1 / 2)"
    "\<not> out_of_bounds (arange 20) (x - 3 / 5 - 1 / 2)"
    by (simp_all add: out_of_bounds_arange)
  show x': "xpos ?s' (Suc t) p = Fin (x - 3 / 5)"
    using inx by (simp add: xpos_integrate interp_u_def c grid_zyx_def grid u res
        out_of_bounds_arange evaluate_linear3_Fin linear3_const rows)
  show y': "ypos ?s' (Suc t) p = Fin 10"
    using inx by (simp add: ypos_integrate interp_v_def c grid_zyx_def grid v res
        out_of_bounds_arange evaluate_linear3_Fin linear3_const rows)
  show h': "zpos_heightASL ?s' (Suc t) p = Fin (z\<^sub>0 + 200)"
    using inx by (simp add: zpos_heightASL_integrate interp_w_def c grid_zyx_def grid w
        out_of_bounds_arange evaluate_linear3_Fin linear3_const rows)
  have "vert_resolution ds = (\<lambda>l j i. Fin 100)"
    by (simp add: vert_resolution_def zh)
  with inx have r: "zpos_vert_res ?s' t p = Fin 100"
    by (simp add: zpos_vert_res_integrate interp_vert_res_def c grid_vert_def grid
        out_of_bounds_arange evaluate_linear3_Fin linear3_const)
  from inx have g: "surface_height ds ?s' (Suc t) p = Fin z\<^sub>0"
    by (simp add: surface_height_def coord_zs_def xloc_def yloc_def x' y' zs grid_yx_def grid
        out_of_bounds_arange evaluate_linear2_Fin linear2_const)
  have "zpos ?s' (t + 1) p = Fin 2"
    by (subst zpos_integrate) (simp add: h' r g index_from_height_def zpos_min_def cfg)
  then show "zpos ?s' (Suc t) p = Fin 2"
    by simp
qed

lemma scenario_rows:
  assumes grid: "nx ds = 20" "ny ds = 20" "nz ds = 5"
    and u: "\<forall>k. uinterp ds k = (\<lambda>l j i. Fin 10)" and v: "\<forall>k. vinterp ds k = (\<lambda>l j i. Fin 0)"
    and w: "\<forall>k. winterp ds k = (\<lambda>l j i. Fin 0)"
    and res: "hor_resolution ds = 1000" "time_step_length ds = 60"
    and zh: "zh ds = (\<lambda>l j i. Fin (z\<^sub>0 + 50 + 100 * real l))"
    and zs: "surface_grid ds = (\<lambda>j i. Fin z\<^sub>0)"
    and cfg: "staggered cfg = ''N''" "seed_x cfg p = 10" "seed_y cfg p = 10" "seed_z cfg p = 2"
  shows "run_loop ds cfg [0..<m] (initial ds cfg) = Inr s \<Longrightarrow> m \<le> 14 \<Longrightarrow> t \<le> m
     \<Longrightarrow> xpos s t p = Fin (10 - 3 / 5 * real t) \<and> ypos s t p = Fin 10
         \<and> zpos s t p = Fin 2 \<and> zpos_heightASL s t p = Fin (z\<^sub>0 + 200)"
proof (induction m arbitrary: s t)
  case 0
  have "interp_zh ds (seeded cfg) 0 p = Fin (z\<^sub>0 + 200)"
    by (rule scenario_height [OF grid zh, of _ _ _ 10])
       (simp_all add: seeded_def cfg)
  moreover from 0 have "s = initial ds cfg" "t = 0"
    by simp_all
  ultimately show ?case
    by (simp add: initial_row0 cfg)
next
  case (Suc m)
  from Suc.prems(1) obtain s1
    where loop: "run_loop ds cfg [0..<m] (initial ds cfg) = Inr s1"
      and st: "step ds cfg m s1 = Inr s"
    by (rule run_loop_Suc)
  from step_Inr [OF st] obtain k where s: "s = integrate ds cfg k m s1"
    by blast
  from Suc.prems(2) have m: "m \<le> 14"
    by simp
  note IH = Suc.IH [OF loop m]
  show ?case
  proof (cases "t = Suc m")
    case True
    from IH [of m] have rows: "xpos s1 m p = Fin (10 - 3 / 5 * real m)" "ypos s1 m p = Fin 10"
      "zpos s1 m p = Fin 2" "zpos_heightASL s1 m p = Fin (z\<^sub>0 + 200)"
      by simp_all
    from m have "real m \<le> 14"
      by simp
    then have x: "11 / 10 \<le> 10 - 3 / 5 * real m" "10 - 3 / 5 * real m \<le> 39 / 2"
      by simp_all
    have "10 - 3 / 5 * real m - 3 / 5 = 10 - 3 / 5 * real (Suc m)"
      by (simp add: field_simps)
    with scenario_step [OF grid u [rule_format] v [rule_format] w [rule_format] res zh zs
        cfg(1) rows x, of k]
    show ?thesis
      unfolding s True by simp
  next
    case False
    with Suc.prems(3) have t: "t \<le> m" "t \<noteq> m + 1"
      by simp_all
    from step_frame(1-3) [OF st t(2)] step_frame(4) [OF st t(2), of p] IH [OF t(1)]
    show ?thesis
      by (simp add: zpos_min_def cfg)
  qed
qed

lemma scenario_run:
  assumes grid: "nx ds = 20" "ny ds = 20" "nz ds = 5"
    and u: "\<forall>k. uinterp ds k = (\<lambda>l j i. Fin 10)" and v: "\<forall>k. vinterp ds k = (\<lambda>l j i. Fin 0)"
    and w: "\<forall>k. winterp ds k = (\<lambda>l j i. Fin 0)"
    and res: "hor_resolution ds = 1000" "time_step_length ds = 60"
    and zh: "zh ds = (\<lambda>l j i. Fin (z\<^sub>0 + 50 + 100 * real l))"
    and zs: "surface_grid ds = (\<lambda>j i. Fin z\<^sub>0)"
    and cfg: "staggered cfg = ''N''" "seed_x cfg p = 10" "seed_y cfg p = 10" "seed_z cfg p = 2"
    and run: "trajectories ds cfg = Inr s" and n: "time_steps cfg \<le> 15" "t < time_steps cfg"
  shows "xpos s t p = Fin (10 - 3 / 5 * real t)" "ypos s t p = Fin 10" "zpos s t p = Fin 2"
    "zpos_heightASL s t p = Fin (z\<^sub>0 + 200)"
proof -
  from run obtain s1
    where loop: "run_loop ds cfg [0..<time_steps cfg - 1] (initial ds cfg) = Inr s1"
      and fin: "final_sample ds cfg s1 = Inr s"
    by (auto simp: trajectories_def initialize_def split: sum.splits if_splits)
  from n have "time_steps cfg - 1 \<le> 14" "t \<le> time_steps cfg - 1"
    by simp_all
  from scenario_rows [OF grid u v w res zh zs cfg loop this] final_sample_frame [OF fin]
  show "xpos s t p = Fin (10 - 3 / 5 * real t)" "ypos s t p = Fin 10" "zpos s t p = Fin 2"
    "zpos_heightASL s t p = Fin (z\<^sub>0 + 200)"
    by simp_all
qed

lemma flat_run:
  shows "trajectories flat_ds flat_cfg = Inr (projr (trajectories flat_ds flat_cfg))"
    and "t < 5 \<Longrightarrow> xpos (projr (trajectories flat_ds flat_cfg)) t 0 = Fin (10 - 3 / 5 * real t)"
    and "t < 5 \<Longrightarrow> ypos (projr (trajectories flat_ds flat_cfg)) t 0 = Fin 10"
    and "t < 5 \<Longrightarrow> zpos (projr (trajectories flat_ds flat_cfg)) t 0 = Fin 2"
    and "t < 5 \<Longrightarrow> zpos_heightASL (projr (trajectories flat_ds flat_cfg)) t 0 = Fin 200"
proof -
  have "\<forall>t < time_steps flat_cfg - 1. \<exists>k. snapshot flat_ds flat_cfg t = Inr k"
    by (simp add: snapshot_Inr_iff flat_ds_grid flat_cfg_simps)
  then show run: "trajectories flat_ds flat_cfg = Inr (projr (trajectories flat_ds flat_cfg))"
    by (intro trajectories_Inr_projr trajectories_returns) (simp_all add: flat_cfg_simps)
  have zh: "zh flat_ds = (\<lambda>l j i. Fin (0 + 50 + 100 * real l))"
    and zs: "surface_grid flat_ds = (\<lambda>j i. Fin 0)"
    by (simp_all add: flat_ds_fields surface_grid_def)
  note rows = scenario_run [OF flat_ds_grid(1-3) _ _ _ flat_ds_fields(7,8) zh zs
      flat_cfg_simps(3,5,6,7) run, of t]
  show "t < 5 \<Longrightarrow> xpos (projr (trajectories flat_ds flat_cfg)) t 0 = Fin (10 - 3 / 5 * real t)"
    "t < 5 \<Longrightarrow> ypos (projr (trajectories flat_ds flat_cfg)) t 0 = Fin 10"
    "t < 5 \<Longrightarrow> zpos (projr (trajectories flat_ds flat_cfg)) t 0 = Fin 2"
    "t < 5 \<Longrightarrow> zpos_heightASL (projr (trajectories flat_ds flat_cfg)) t 0 = Fin 200"
    using rows by (simp_all add: flat_ds_fields flat_cfg_simps)
qed



text \<open>The run over two time steps of the parcel at \<open>(10, 10, 2)\<close>, row by row.\<close>

lemma interp_zh_flat: "interp_zh flat_ds (seeded short_cfg) 0 0 = Fin 200"
proof -
  have c: "coord (seeded short_cfg) 0 0 = (Fin (3 / 2), Fin (19 / 2), Fin (19 / 2))"
    by (simp add: coord_def xloc_def yloc_def zloc_def seeded_def short_cfg_simps)
  have "linear3 (arange 5, arange 20, arange 20) (\<lambda>l j i. 50 + 100 * real l)
          (3 / 2, 19 / 2, 19 / 2) = 200"
    using linear3_split [of "arange 5" "arange 20" "arange 20" "\<lambda>j i. 50"
        "\<lambda>l. 100 * real l" "3 / 2" "19 / 2" "19 / 2"]
    by (simp add: evaluate_linear2_Fin linear2_const norm_distance_arange find_index_arange)
  then show ?thesis
    by (simp add: interp_zh_def c grid_zyx_def flat_ds_grid flat_ds_fields
        out_of_bounds_arange evaluate_linear3_Fin)
qed

lemma short_run_row1:
  "xpos (integrate flat_ds short_cfg (Suc 0) 0 (initial flat_ds short_cfg)) (Suc 0) 0 = Fin 9.4"
  "ypos (integrate flat_ds short_cfg (Suc 0) 0 (initial flat_ds short_cfg)) (Suc 0) 0 = Fin 10"
  "zpos_heightASL (integrate flat_ds short_cfg (Suc 0) 0 (initial flat_ds short_cfg)) (Suc 0) 0 = Fin 200"
  "zpos (integrate flat_ds short_cfg (Suc 0) 0 (initial flat_ds short_cfg)) (Suc 0) 0 = Fin 2"
proof -
  let ?s0 = "initial flat_ds short_cfg"
  let ?s1 = "integrate flat_ds short_cfg (Suc 0) 0 ?s0"
  have c: "coord_u short_cfg ?s0 0 0 = (Fin (3 / 2), Fin (19 / 2), Fin (19 / 2))"
    "coord_v short_cfg ?s0 0 0 = (Fin (3 / 2), Fin (19 / 2), Fin (19 / 2))"
    "coord_w short_cfg ?s0 0 0 = (Fin (3 / 2), Fin (19 / 2), Fin (19 / 2))"
    "coord ?s0 0 0 = (Fin (3 / 2), Fin (19 / 2), Fin (19 / 2))"
    by (simp_all add: coord_u_def coord_v_def coord_w_def coord_def xloc_def yloc_def zloc_def
        initial_row0 short_cfg_simps)
  show x: "xpos ?s1 (Suc 0) 0 = Fin 9.4"
    by (simp add: xpos_integrate interp_u_def c grid_zyx_def flat_ds_grid flat_ds_fields
        out_of_bounds_arange evaluate_linear3_Fin linear3_const initial_row0 short_cfg_simps)
  show y: "ypos ?s1 (Suc 0) 0 = Fin 10"
    by (simp add: ypos_integrate interp_v_def c grid_zyx_def flat_ds_grid flat_ds_fields
        out_of_bounds_arange evaluate_linear3_Fin linear3_const initial_row0 short_cfg_simps)
  show h: "zpos_heightASL ?s1 (Suc 0) 0 = Fin 200"
    by (simp add: zpos_heightASL_integrate interp_w_def c grid_zyx_def flat_ds_grid
        flat_ds_fields out_of_bounds_arange evaluate_linear3_Fin linear3_const initial_row0 interp_zh_flat)
  have v: "vert_resolution flat_ds = (\<lambda>l j i. Fin 100)"
    by (simp add: vert_resolution_def flat_ds_fields)
  have r: "zpos_vert_res ?s1 0 0 = Fin 100"
    by (simp add: zpos_vert_res_integrate interp_vert_res_def c v grid_vert_def flat_ds_grid
        out_of_bounds_arange evaluate_linear3_Fin linear3_const)
  have g: "surface_height flat_ds ?s1 (Suc 0) 0 = Fin 0"
    by (simp add: surface_height_def coord_zs_def xloc_def yloc_def x y surface_grid_def
        flat_ds_fields grid_yx_def flat_ds_grid out_of_bounds_arange evaluate_linear2_Fin linear2_const)
  have "zpos ?s1 (0 + 1) 0 = Fin 2"
    by (subst zpos_integrate)
       (simp add: h r g index_from_height_def zpos_min_def short_cfg_simps)
  then show "zpos ?s1 (Suc 0) 0 = Fin 2" by simp
qed


lemma crosswind_ds_simps:
  "nx crosswind_ds = 20" "ny crosswind_ds = 20" "nz crosswind_ds = 5" "nt crosswind_ds = 5"
  "uinterp crosswind_ds k = (\<lambda>l j i. Fin 10)" "vinterp crosswind_ds k = (\<lambda>l j i. Fin 25)"
  "hor_resolution crosswind_ds = 1000" "time_step_length crosswind_ds = 60"
  by (simp_all add: crosswind_ds_def flat_ds_def)

lemma still_ds_simps:
  "nx still_ds = 20" "ny still_ds = 20" "nz still_ds = 5" "nt still_ds = 5"
  "uinterp still_ds k = (\<lambda>l j i. Fin 0)" "vinterp still_ds k = (\<lambda>l j i. Fin 0)"
  "winterp still_ds k = (\<lambda>l j i. Fin 0)"
  "zh still_ds = (\<lambda>l j i. Fin (50 + 100 * real (l * l)))" "zs still_ds = None"
  "hor_resolution still_ds = 1000" "time_step_length still_ds = 60"
  by (simp_all add: still_ds_def flat_ds_def)

lemma slope_ds_simps:
  "nx slope_ds = 20" "ny slope_ds = 20" "nz slope_ds = 5" "nt slope_ds = 5"
  "uinterp slope_ds k = (\<lambda>l j i. Fin 12.5)" "vinterp slope_ds k = (\<lambda>l j i. Fin 0)"
  "winterp slope_ds k = (\<lambda>l j i. Fin 0)"
  "zh slope_ds = (\<lambda>l j i. Fin (128 * real i + (real l + 1 / 2) * (8 * real i + 52)))"
  "zs slope_ds = Some (\<lambda>j i. Fin (128 * real i))"
  "hor_resolution slope_ds = 1000" "time_step_length slope_ds = 60"
  by (simp_all add: slope_ds_def flat_ds_def)




text \<open>
  The interpolations over the terrain that rises eastward, at the parcel \<open>(10, 10, 2)\<close>
  and at the position \<open>x = 9.25\<close> that it moves to.
\<close>

lemma slope_interp:
  "interp_zh slope_ds (seeded flat_cfg) 0 0 = Fin 1472"
  "interpn3 (grid_vert slope_ds) (vert_resolution slope_ds) NaN
     (Fin (3 / 2), Fin (19 / 2), Fin (19 / 2)) = Fin 128"
  "interpn3 (grid_vert slope_ds) (vert_resolution slope_ds) NaN
     (Fin (3 / 2), Fin (19 / 2), Fin (35 / 4)) = Fin 122"
  "interpn2 (grid_yx slope_ds) (surface_grid slope_ds) NaN (Fin (19 / 2), Fin (35 / 4))
     = Fin 1120"
  "interpn2 (grid_yx slope_ds) (surface_grid slope_ds) NaN (Fin (19 / 2), Fin (19 / 2))
     = Fin 1216"
proof -
  have c: "coord (seeded flat_cfg) 0 0 = (Fin (3 / 2), Fin (19 / 2), Fin (19 / 2))"
    by (simp add: coord_def xloc_def yloc_def zloc_def seeded_def flat_cfg_simps)
  have i: "find_index (arange 5) (3 / 2) = 1" "find_index (arange 4) (3 / 2) = 1"
    "find_index (arange 20) (19 / 2) = 9" "find_index (arange 20) (35 / 4) = 8"
    by (simp_all add: find_index_arange)
  have d: "norm_distance (arange 5) (3 / 2) = 1 / 2" "norm_distance (arange 4) (3 / 2) = 1 / 2"
    "norm_distance (arange 20) (19 / 2) = 1 / 2" "norm_distance (arange 20) (35 / 4) = 3 / 4"
    by (simp_all add: norm_distance_arange i)
  have "linear3 (arange 5, arange 20, arange 20)
          (\<lambda>l j i. 128 * real i + (real l + 1 / 2) * (8 * real i + 52))
          (3 / 2, 19 / 2, 19 / 2) = 1472"
    by (simp add: linear3_def Let_def weight_def i d)
  then show "interp_zh slope_ds (seeded flat_cfg) 0 0 = Fin 1472"
    by (simp add: interp_zh_def c grid_zyx_def slope_ds_simps out_of_bounds_arange
        evaluate_linear3_Fin)
  have v: "vert_resolution slope_ds = (\<lambda>l j i. Fin (8 * real i + 52))"
    by (simp add: vert_resolution_def slope_ds_simps fun_eq_iff algebra_simps)
  have g: "surface_grid slope_ds = (\<lambda>j i. Fin (128 * real i))"
    by (simp add: surface_grid_def slope_ds_simps)
  have "linear3 (arange 4, arange 20, arange 20) (\<lambda>l j i. 8 * real i + 52)
          (3 / 2, 19 / 2, 19 / 2) = 128"
    by (simp add: linear3_def Let_def weight_def i d)
  then show "interpn3 (grid_vert slope_ds) (vert_resolution slope_ds) NaN
      (Fin (3 / 2), Fin (19 / 2), Fin (19 / 2)) = Fin 128"
    by (simp add: v grid_vert_def slope_ds_simps out_of_bounds_arange evaluate_linear3_Fin)
  have "linear3 (arange 4, arange 20, arange 20) (\<lambda>l j i. 8 * real i + 52)
          (3 / 2, 19 / 2, 35 / 4) = 122"
    by (simp add: linear3_def Let_def weight_def i d)
  then show "interpn3 (grid_vert slope_ds) (vert_resolution slope_ds) NaN
      (Fin (3 / 2), Fin (19 / 2), Fin (35 / 4)) = Fin 122"
    by (simp add: v grid_vert_def slope_ds_simps out_of_bounds_arange evaluate_linear3_Fin)
  have "linear2 (arange 20, arange 20) (\<lambda>j i. 128 * real i) (19 / 2, 35 / 4) = 1120"
    by (simp add: linear2_def Let_def weight_def i d)
  then show "interpn2 (grid_yx slope_ds) (surface_grid slope_ds) NaN
      (Fin (19 / 2), Fin (35 / 4)) = Fin 1120"
    by (simp add: g grid_yx_def slope_ds_simps out_of_bounds_arange evaluate_linear2_Fin)
  have "linear2 (arange 20, arange 20) (\<lambda>j i. 128 * real i) (19 / 2, 19 / 2) = 1216"
    by (simp add: linear2_def Let_def weight_def i d)
  then show "interpn2 (grid_yx slope_ds) (surface_grid slope_ds) NaN
      (Fin (19 / 2), Fin (19 / 2)) = Fin 1216"
    by (simp add: g grid_yx_def slope_ds_simps out_of_bounds_arange evaluate_linear2_Fin)
qed

lemma masked_field_simps:
  "masked_field 0 0 0 = NaN" "0 < l \<Longrightarrow> masked_field l j i = Fin (100 * real l + 10 * real j + real i)"
  "0 < j \<Longrightarrow> masked_field l j i = Fin (100 * real l + 10 * real j + real i)"
  "0 < i \<Longrightarrow> masked_field l j i = Fin (100 * real l + 10 * real j + real i)"
  by (simp_all add: masked_field_def)

subsection \<open>Horizontal displacement\<close>

text \<open>
  The horizontal displacement of a pass of the loop, in the exact arithmetic of this
  development: the new x position is the old one minus the u velocity, interpolated with
  the not-a-number fill value at the query point of u, times the time step length,
  divided by the horizontal resolution; the new y position likewise with the v velocity.
\<close>

lemma horizontal_update:
  assumes "snapshot ds cfg t = Inr k" and "step ds cfg t s = Inr s'"
  shows "xpos s' (t + 1) p =
           fsub (xpos s t p)
             (fdiv (fmul (interpn3 (grid_zyx ds) (uinterp ds k) NaN (coord_u cfg s t p))
                      (Fin (time_step_length ds)))
                (Fin (hor_resolution ds)))"
    and "ypos s' (t + 1) p =
           fsub (ypos s t p)
             (fdiv (fmul (interpn3 (grid_zyx ds) (vinterp ds k) NaN (coord_v cfg s t p))
                      (Fin (time_step_length ds)))
                (Fin (hor_resolution ds)))"
proof -
  from assms have s': "s' = integrate ds cfg k t s"
    by (simp add: step_def)
  show "xpos s' (t + 1) p =
      fsub (xpos s t p)
        (fdiv (fmul (interpn3 (grid_zyx ds) (uinterp ds k) NaN (coord_u cfg s t p))
                 (Fin (time_step_length ds)))
           (Fin (hor_resolution ds)))"
    by (simp add: s' xpos_integrate interp_u_def)
  show "ypos s' (t + 1) p =
      fsub (ypos s t p)
        (fdiv (fmul (interpn3 (grid_zyx ds) (vinterp ds k) NaN (coord_v cfg s t p))
                 (Fin (time_step_length ds)))
           (Fin (hor_resolution ds)))"
    by (simp add: s' ypos_integrate interp_v_def)
qed

text \<open>
  In uniform winds \<open>c\<^sub>u\<close> and \<open>c\<^sub>v\<close>, a parcel whose query points lie inside the grid
  moves by \<open>c\<^sub>u\<close> and \<open>c\<^sub>v\<close> times the time step length over the horizontal resolution.
\<close>

lemma uniform_wind_update:
  assumes "snapshot ds cfg t = Inr k" and "step ds cfg t s = Inr s'"
    and "uinterp ds k = (\<lambda>l j i. Fin c\<^sub>u)" "vinterp ds k = (\<lambda>l j i. Fin c\<^sub>v)"
    and "hor_resolution ds \<noteq> 0"
    and "inside3 (grid_zyx ds) (coord_u cfg s t p)" "inside3 (grid_zyx ds) (coord_v cfg s t p)"
    and "xpos s t p = Fin x" "ypos s t p = Fin y"
  shows "xpos s' (t + 1) p = Fin (x - c\<^sub>u * time_step_length ds / hor_resolution ds)"
    and "ypos s' (t + 1) p = Fin (y - c\<^sub>v * time_step_length ds / hor_resolution ds)"
proof -
  have const: "interpn3 g (\<lambda>l j i. Fin c) NaN xi = Fin c" if "inside3 g xi" for g c xi
    using that
    by (cases "(g, xi)" rule: inside3.cases)
       (simp_all add: evaluate_linear3_Fin [of _ "\<lambda>l j i. c"] linear3_const)
  from assms(3-9) horizontal_update [OF assms(1,2), of p]
  show "xpos s' (t + 1) p = Fin (x - c\<^sub>u * time_step_length ds / hor_resolution ds)"
    "ypos s' (t + 1) p = Fin (y - c\<^sub>v * time_step_length ds / hor_resolution ds)"
    by (simp_all add: const)
qed

text \<open>
  With \<open>u = 10\<close> m/s, \<open>v = 25\<close> m/s, 1000 m between grid points and 60 s between output
  times, the parcel at \<open>(10, 10)\<close> moves to \<open>(9.4, 8.5)\<close>.
\<close>

lemma crosswind_step:
  "xpos (integrate crosswind_ds flat_cfg 4 0 (initial crosswind_ds flat_cfg)) 1 0 = Fin 9.4"
  "ypos (integrate crosswind_ds flat_cfg 4 0 (initial crosswind_ds flat_cfg)) 1 0 = Fin 8.5"
proof -
  let ?s0 = "initial crosswind_ds flat_cfg"
  have snap: "snapshot crosswind_ds flat_cfg 0 = Inr 4"
    by (simp add: snapshot_def time_index_def crosswind_ds_simps flat_cfg_simps)
  have st: "step crosswind_ds flat_cfg 0 ?s0 = Inr (integrate crosswind_ds flat_cfg 4 0 ?s0)"
    by (simp add: step_def snap)
  have pos: "xpos ?s0 0 0 = Fin 10" "ypos ?s0 0 0 = Fin 10" "zpos ?s0 0 0 = Fin 2"
    by (simp_all add: initial_row0 flat_cfg_simps)
  have ins: "inside3 (grid_zyx crosswind_ds) (coord_u flat_cfg ?s0 0 0)"
    "inside3 (grid_zyx crosswind_ds) (coord_v flat_cfg ?s0 0 0)"
    by (simp_all add: coord_u_def coord_v_def xloc_def yloc_def zloc_def pos
        grid_zyx_def out_of_bounds_arange crosswind_ds_simps flat_cfg_simps)
  have res: "hor_resolution crosswind_ds \<noteq> 0"
    by (simp add: crosswind_ds_simps)
  from uniform_wind_update [OF snap st crosswind_ds_simps(5,6) res ins pos(1,2)]
  show "xpos (integrate crosswind_ds flat_cfg 4 0 ?s0) 1 0 = Fin 9.4"
    "ypos (integrate crosswind_ds flat_cfg 4 0 ?s0) 1 0 = Fin 8.5"
    by (simp_all add: crosswind_ds_simps)
qed

subsection \<open>Displacement of the height\<close>




subsection \<open>The vertical position on the grid\<close>

text \<open>
  Claim C3. In every pass of the loop, the vertical grid spacing of a parcel is
  interpolated from the spacing array, on its grid \<^verbatim>\<open>(z[:-1], y, x)\<close>, at the scalar
  coordinates of the position before the update (row \<open>t\<close> of the arrays as the pass found
  them, each minus 0.5); the surface height is interpolated from the surface array at
  the scalar coordinates of the horizontal position after the update (row \<open>t + 1\<close> of the
  new arrays); and the value written to row \<open>t + 1\<close> of the vertical position is the new
  height minus that surface height, divided by that spacing. The clip of the same pass
  is then applied to it.
\<close>

theorem vertical_index_update:
  assumes "step ds cfg t s = Inr s'"
  shows "zpos_vert_res s' t p =
           interpn3 (grid_vert ds) (vert_resolution ds) NaN
             (fsub (zpos s t p) (Fin 0.5), fsub (ypos s t p) (Fin 0.5),
              fsub (xpos s t p) (Fin 0.5))
       \<and> zpos s' (t + 1) p =
           clip_min (zpos_min cfg)
             (fdiv (fsub (zpos_heightASL s' (t + 1) p)
                      (interpn2 (grid_yx ds) (surface_grid ds) NaN
                         (fsub (ypos s' (t + 1) p) (Fin 0.5),
                          fsub (xpos s' (t + 1) p) (Fin 0.5))))
                (zpos_vert_res s' t p))"
proof -
  from step_Inr [OF assms] obtain k where s': "s' = integrate ds cfg k t s"
    by blast
  have "zpos_vert_res s' t p = interp_vert_res ds s t p"
    by (simp add: s' zpos_vert_res_integrate)
  moreover have "zpos s' (t + 1) p =
      clip_min (zpos_min cfg)
        (index_from_height (zpos_heightASL s' (t + 1) p) (surface_height ds s' (t + 1) p)
           (zpos_vert_res s' t p))"
    unfolding s' by (subst zpos_integrate) simp
  ultimately show ?thesis
    by (simp add: index_from_height_def interp_vert_res_def surface_height_def coord_def
        coord_zs_def xloc_def yloc_def zloc_def)
qed

text \<open>
  Over the terrain that rises eastward, the parcel at \<open>(10, 10, 2)\<close> is 1472 m high and
  moves to \<open>x = 9.25\<close>. The spacing is 128 m at the old position (122 m at the new one),
  the surface is at 1120 m below the new position (1216 m below the old one), and the
  vertical position written is \<open>(1472 - 1120) / 128 = 2.75\<close>.
\<close>

theorem vertical_index_update_witness:
  "step slope_ds flat_cfg 0 (initial slope_ds flat_cfg)
     = Inr (integrate slope_ds flat_cfg 4 0 (initial slope_ds flat_cfg))
   \<and> xpos (initial slope_ds flat_cfg) 0 0 = Fin 10
   \<and> ypos (initial slope_ds flat_cfg) 0 0 = Fin 10
   \<and> zpos (initial slope_ds flat_cfg) 0 0 = Fin 2
   \<and> xpos (integrate slope_ds flat_cfg 4 0 (initial slope_ds flat_cfg)) 1 0 = Fin 9.25
   \<and> ypos (integrate slope_ds flat_cfg 4 0 (initial slope_ds flat_cfg)) 1 0 = Fin 10
   \<and> zpos_heightASL (integrate slope_ds flat_cfg 4 0 (initial slope_ds flat_cfg)) 1 0 = Fin 1472
   \<and> zpos_vert_res (integrate slope_ds flat_cfg 4 0 (initial slope_ds flat_cfg)) 0 0 = Fin 128
   \<and> interpn3 (grid_vert slope_ds) (vert_resolution slope_ds) NaN (Fin 1.5, Fin 9.5, Fin 8.75)
       = Fin 122
   \<and> interpn2 (grid_yx slope_ds) (surface_grid slope_ds) NaN (Fin 9.5, Fin 8.75) = Fin 1120
   \<and> interpn2 (grid_yx slope_ds) (surface_grid slope_ds) NaN (Fin 9.5, Fin 9.5) = Fin 1216
   \<and> zpos (integrate slope_ds flat_cfg 4 0 (initial slope_ds flat_cfg)) 1 0 = Fin 2.75"
proof -
  let ?s0 = "initial slope_ds flat_cfg"
  let ?s1 = "integrate slope_ds flat_cfg 4 0 ?s0"
  have snap: "snapshot slope_ds flat_cfg 0 = Inr 4"
    by (simp add: snapshot_def time_index_def slope_ds_simps flat_cfg_simps)
  have st: "step slope_ds flat_cfg 0 ?s0 = Inr ?s1"
    by (simp add: step_def snap)
  have pos: "xpos ?s0 0 0 = Fin 10" "ypos ?s0 0 0 = Fin 10" "zpos ?s0 0 0 = Fin 2"
    by (simp_all add: initial_row0 flat_cfg_simps)
  have c: "coord_u flat_cfg ?s0 0 0 = (Fin (3 / 2), Fin (19 / 2), Fin (19 / 2))"
    "coord_v flat_cfg ?s0 0 0 = (Fin (3 / 2), Fin (19 / 2), Fin (19 / 2))"
    "coord_w flat_cfg ?s0 0 0 = (Fin (3 / 2), Fin (19 / 2), Fin (19 / 2))"
    by (simp_all add: coord_u_def coord_v_def coord_w_def xloc_def yloc_def zloc_def
        initial_row0 flat_cfg_simps)
  have x1: "xpos ?s1 (Suc 0) 0 = Fin (37 / 4)"
    by (simp add: xpos_integrate interp_u_def c grid_zyx_def slope_ds_simps
        out_of_bounds_arange evaluate_linear3_Fin linear3_const pos)
  have y1: "ypos ?s1 (Suc 0) 0 = Fin 10"
    by (simp add: ypos_integrate interp_v_def c grid_zyx_def slope_ds_simps
        out_of_bounds_arange evaluate_linear3_Fin linear3_const pos)
  have h0: "zpos_heightASL ?s0 0 0 = Fin 1472"
    by (simp add: initial_row0 slope_interp)
  have h1: "zpos_heightASL ?s1 (Suc 0) 0 = Fin 1472"
    by (simp add: zpos_heightASL_integrate interp_w_def c grid_zyx_def slope_ds_simps
        out_of_bounds_arange evaluate_linear3_Fin linear3_const h0)
  note inst = vertical_index_update [OF st, of 0]
  from inst [THEN conjunct1] have r: "zpos_vert_res ?s1 0 0 = Fin 128"
    by (simp add: pos slope_interp)
  have zm: "zpos_min flat_cfg = 0"
    by (simp add: zpos_min_def flat_cfg_simps)
  from inst [THEN conjunct2] have z1: "zpos ?s1 (Suc 0) 0 = Fin (11 / 4)"
    by (simp add: x1 y1 h1 r slope_interp zm)
  from st pos x1 y1 h1 r z1 show ?thesis
    by (simp add: slope_interp)
qed

subsection \<open>The clip at the surface\<close>

text \<open>
  Claim C4, as the loop has it. After every pass of the loop, every entry of the
  vertical position array, at every time step and for every parcel, is either
  not-a-number or at least the lower bound of the clip, which is 0.5 when the stagger
  flag is \<open>Y\<close> and 0 otherwise: no entry is below the bound.
\<close>

theorem surface_clip:
  assumes "step ds cfg t s = Inr s'"
  shows "(zpos s' t' p = NaN \<or> fge (zpos s' t' p) (zpos_min cfg))
       \<and> \<not> flt (zpos s' t' p) (zpos_min cfg)
       \<and> zpos_min cfg = (if staggered cfg = ''Y'' then 0.5 else 0)"
proof -
  from step_Inr [OF assms] obtain k where s': "s' = integrate ds cfg k t s"
    by blast
  show ?thesis
    unfolding s'
    by (subst (1 2 3) zpos_integrate)
       (simp add: clip_min_ge clip_min_not_below zpos_min_def)
qed

theorem surface_clip_witness:
  "step flat_ds stag_cfg 0 (initial flat_ds stag_cfg)
     = Inr (integrate flat_ds stag_cfg 4 0 (initial flat_ds stag_cfg))
   \<and> (zpos (integrate flat_ds stag_cfg 4 0 (initial flat_ds stag_cfg)) 1 0 = NaN
      \<or> fge (zpos (integrate flat_ds stag_cfg 4 0 (initial flat_ds stag_cfg)) 1 0) 0.5)
   \<and> \<not> flt (zpos (integrate flat_ds stag_cfg 4 0 (initial flat_ds stag_cfg)) 1 0) 0.5"
proof -
  have snap: "snapshot flat_ds stag_cfg 0 = Inr 4"
    by (simp add: snapshot_def time_index_def flat_ds_grid stag_cfg_simps)
  have st: "step flat_ds stag_cfg 0 (initial flat_ds stag_cfg)
      = Inr (integrate flat_ds stag_cfg 4 0 (initial flat_ds stag_cfg))"
    by (simp add: step_def snap)
  have zm: "zpos_min stag_cfg = 0.5"
    by (simp add: zpos_min_def stag_cfg_simps)
  from surface_clip [OF st, of 1 0]
  have "(zpos (integrate flat_ds stag_cfg 4 0 (initial flat_ds stag_cfg)) 1 0 = NaN
      \<or> fge (zpos (integrate flat_ds stag_cfg 4 0 (initial flat_ds stag_cfg)) 1 0)
           (zpos_min stag_cfg))
    \<and> \<not> flt (zpos (integrate flat_ds stag_cfg 4 0 (initial flat_ds stag_cfg)) 1 0)
           (zpos_min stag_cfg)"
    by blast
  then show ?thesis
    unfolding zm using st by blast
qed

text \<open>
  A parcel seeded on the lowest grid point, without stagger: its scalar coordinate
  \<open>z - 0.5\<close> is below the grid, the interpolated grid spacing is the not-a-number fill
  value, and the vertical position written by the first pass is not-a-number, which
  the clip leaves as it is. The entry is not at least 0.
\<close>

theorem surface_clip_counterexample:
  "trajectories flat_ds ground_cfg = Inr (projr (trajectories flat_ds ground_cfg))
   \<and> zpos (projr (trajectories flat_ds ground_cfg)) 1 0 = NaN
   \<and> \<not> fge (zpos (projr (trajectories flat_ds ground_cfg)) 1 0) (zpos_min ground_cfg)"
proof -
  have snap: "snapshot flat_ds ground_cfg 0 = Inr 1"
    by (simp add: snapshot_def time_index_def flat_ds_grid ground_cfg_simps)
  note run = trajectories_two_steps_fields [OF ground_cfg_simps(1) snap]
  have c: "coord (initial flat_ds ground_cfg) 0 0 = (Fin (- 1 / 2), Fin (19 / 2), Fin (19 / 2))"
    by (simp add: coord_def xloc_def yloc_def zloc_def initial_row0 ground_cfg_simps)
  have "interp_vert_res flat_ds (initial flat_ds ground_cfg) 0 0 = NaN"
    by (simp add: interp_vert_res_def c grid_vert_def flat_ds_grid out_of_bounds_arange)
  then have "zpos (integrate flat_ds ground_cfg 1 0 (initial flat_ds ground_cfg)) (0 + 1) 0 = NaN"
    by (subst zpos_integrate) (simp add: zpos_vert_res_integrate index_from_height_def)
  then have z: "zpos (projr (trajectories flat_ds ground_cfg)) 1 0 = NaN"
    by (simp add: run(4))
  then have "\<not> fge (zpos (projr (trajectories flat_ds ground_cfg)) 1 0) (zpos_min ground_cfg)"
    by simp
  with run(1) z show ?thesis
    by (intro conjI)
qed

subsection \<open>Query points outside the grid\<close>

text \<open>
  Claim C5, as the loop has it. A query point with finite coordinates outside the
  bounds of the grid never makes a pass or the run fail: a pass returns whenever its
  output time exists, and a run over two or more time steps completes whenever the
  output times of its passes exist. Such a point yields not-a-number from the
  interpolations of u, of v, of the tracked variable, of the vertical grid spacing and
  of the surface height, and zero from the interpolation of w and from the
  interpolation of the level heights that gives the initial height.
\<close>

theorem out_of_domain_fill:
  assumes "regular_grid ds"
  shows "(outside3 (grid_zyx ds) (coord_u cfg s t p) \<longrightarrow> interp_u ds cfg k s t p = NaN)
   \<and> (outside3 (grid_zyx ds) (coord_v cfg s t p) \<longrightarrow> interp_v ds cfg k s t p = NaN)
   \<and> (outside3 (grid_zyx ds) (coord s t p) \<longrightarrow> interp_var1 ds a s t p = NaN)
   \<and> (outside3 (grid_vert ds) (coord s t p) \<longrightarrow> interp_vert_res ds s t p = NaN)
   \<and> (outside2 (grid_yx ds) (coord_zs s t p) \<longrightarrow> surface_height ds s t p = NaN)
   \<and> (outside3 (grid_zyx ds) (coord_w cfg s t p) \<longrightarrow> interp_w ds cfg k s t p = Fin 0)
   \<and> (outside3 (grid_zyx ds) (coord s t p) \<longrightarrow> interp_zh ds s t p = Fin 0)
   \<and> (snapshot ds cfg t = Inr k \<longrightarrow> step ds cfg t s = Inr (integrate ds cfg k t s))
   \<and> (2 \<le> time_steps cfg \<and> (\<forall>u < time_steps cfg - 1. \<exists>k. snapshot ds cfg u = Inr k)
        \<longrightarrow> (\<exists>s\<^sub>n. trajectories ds cfg = Inr s\<^sub>n))"
proof -
  have fill3: "interpn3 g a' fill_value xi = fill_value" if "outside3 g xi"
    for g a' fill_value xi
    using that by (cases "(g, xi)" rule: outside3.cases) simp_all
  have fill2: "interpn2 g a' fill_value xi = fill_value" if "outside2 g xi"
    for g a' fill_value xi
    using that by (cases "(g, xi)" rule: outside2.cases) simp_all
  have "\<exists>s\<^sub>n. trajectories ds cfg = Inr s\<^sub>n"
    if "2 \<le> time_steps cfg \<and> (\<forall>u < time_steps cfg - 1. \<exists>k. snapshot ds cfg u = Inr k)"
    using that by (intro trajectories_returns) simp_all
  then show ?thesis
    by (simp add: interp_u_def interp_v_def interp_var1_def interp_vert_res_def
        surface_height_def interp_w_def interp_zh_def fill3 fill2 step_def)
qed

theorem out_of_domain_fill_witness:
  "outside3 (grid_zyx flat_ds) (coord_u far_cfg (initial flat_ds far_cfg) 0 0)
   \<and> outside3 (grid_zyx flat_ds) (coord_v far_cfg (initial flat_ds far_cfg) 0 0)
   \<and> outside3 (grid_zyx flat_ds) (coord_w far_cfg (initial flat_ds far_cfg) 0 0)
   \<and> outside3 (grid_zyx flat_ds) (coord (initial flat_ds far_cfg) 0 0)
   \<and> outside3 (grid_vert flat_ds) (coord (initial flat_ds far_cfg) 0 0)
   \<and> outside2 (grid_yx flat_ds) (coord_zs (initial flat_ds far_cfg) 0 0)
   \<and> regular_grid flat_ds
   \<and> snapshot flat_ds far_cfg 0 = Inr 1
   \<and> interp_u flat_ds far_cfg 1 (initial flat_ds far_cfg) 0 0 = NaN
   \<and> interp_v flat_ds far_cfg 1 (initial flat_ds far_cfg) 0 0 = NaN
   \<and> interp_var1 flat_ds (variable flat_ds ''th'' 1) (initial flat_ds far_cfg) 0 0 = NaN
   \<and> interp_vert_res flat_ds (initial flat_ds far_cfg) 0 0 = NaN
   \<and> surface_height flat_ds (initial flat_ds far_cfg) 0 0 = NaN
   \<and> interp_w flat_ds far_cfg 1 (initial flat_ds far_cfg) 0 0 = Fin 0
   \<and> interp_zh flat_ds (initial flat_ds far_cfg) 0 0 = Fin 0
   \<and> step flat_ds far_cfg 0 (initial flat_ds far_cfg)
       = Inr (integrate flat_ds far_cfg 1 0 (initial flat_ds far_cfg))
   \<and> (\<exists>s\<^sub>n. trajectories flat_ds far_cfg = Inr s\<^sub>n)"
proof -
  have out: "outside3 (grid_zyx flat_ds) (coord_u far_cfg (initial flat_ds far_cfg) 0 0)"
    "outside3 (grid_zyx flat_ds) (coord_v far_cfg (initial flat_ds far_cfg) 0 0)"
    "outside3 (grid_zyx flat_ds) (coord_w far_cfg (initial flat_ds far_cfg) 0 0)"
    "outside3 (grid_zyx flat_ds) (coord (initial flat_ds far_cfg) 0 0)"
    "outside3 (grid_vert flat_ds) (coord (initial flat_ds far_cfg) 0 0)"
    "outside2 (grid_yx flat_ds) (coord_zs (initial flat_ds far_cfg) 0 0)"
    by (simp_all add: coord_u_def coord_v_def coord_w_def coord_def coord_zs_def
        xloc_def yloc_def zloc_def initial_row0 far_cfg_simps
        grid_zyx_def grid_vert_def grid_yx_def flat_ds_grid out_of_bounds_arange)
  have snap: "snapshot flat_ds far_cfg 0 = Inr 1"
    by (simp add: snapshot_def time_index_def flat_ds_grid far_cfg_simps)
  have times: "2 \<le> time_steps far_cfg"
    "\<forall>u < time_steps far_cfg - 1. \<exists>k. snapshot flat_ds far_cfg u = Inr k"
    by (simp_all add: snapshot_Inr_iff flat_ds_grid far_cfg_simps)
  have grid: "regular_grid flat_ds"
    by (simp add: regular_grid_def flat_ds_grid)
  note inst = out_of_domain_fill [OF grid, of far_cfg "initial flat_ds far_cfg" 0 0 1
      "variable flat_ds ''th'' 1"]
  note c2 = conjunct2
  have "interp_u flat_ds far_cfg 1 (initial flat_ds far_cfg) 0 0 = NaN"
    by (rule mp [OF inst [THEN conjunct1] out(1)])
  moreover have "interp_v flat_ds far_cfg 1 (initial flat_ds far_cfg) 0 0 = NaN"
    by (rule mp [OF inst [THEN c2, THEN conjunct1] out(2)])
  moreover have "interp_var1 flat_ds (variable flat_ds ''th'' 1) (initial flat_ds far_cfg) 0 0
      = NaN"
    by (rule mp [OF inst [THEN c2, THEN c2, THEN conjunct1] out(4)])
  moreover have "interp_vert_res flat_ds (initial flat_ds far_cfg) 0 0 = NaN"
    by (rule mp [OF inst [THEN c2, THEN c2, THEN c2, THEN conjunct1] out(5)])
  moreover have "surface_height flat_ds (initial flat_ds far_cfg) 0 0 = NaN"
    by (rule mp [OF inst [THEN c2, THEN c2, THEN c2, THEN c2, THEN conjunct1] out(6)])
  moreover have "interp_w flat_ds far_cfg 1 (initial flat_ds far_cfg) 0 0 = Fin 0"
    by (rule mp [OF inst [THEN c2, THEN c2, THEN c2, THEN c2, THEN c2, THEN conjunct1] out(3)])
  moreover have "interp_zh flat_ds (initial flat_ds far_cfg) 0 0 = Fin 0"
    by (rule mp [OF inst [THEN c2, THEN c2, THEN c2, THEN c2, THEN c2, THEN c2, THEN conjunct1]
          out(4)])
  moreover have "step flat_ds far_cfg 0 (initial flat_ds far_cfg)
      = Inr (integrate flat_ds far_cfg 1 0 (initial flat_ds far_cfg))"
    by (rule mp [OF inst [THEN c2, THEN c2, THEN c2, THEN c2, THEN c2, THEN c2, THEN c2,
            THEN conjunct1] snap])
  moreover have "\<exists>s\<^sub>n. trajectories flat_ds far_cfg = Inr s\<^sub>n"
    by (rule mp [OF inst [THEN c2, THEN c2, THEN c2, THEN c2, THEN c2, THEN c2, THEN c2, THEN c2]])
       (intro conjI times)
  ultimately show ?thesis
    using out grid snap by (intro conjI)
qed

text \<open>
  A parcel east of the domain, in a vertical velocity field of 1 m/s everywhere: the
  query point of the w interpolation is outside the grid, and the interpolated w is
  zero, not not-a-number.
\<close>

theorem out_of_domain_fill_counterexample:
  "outside3 (grid_zyx updraft_ds) (coord_w far_cfg (initial updraft_ds far_cfg) 0 0)
   \<and> interp_w updraft_ds far_cfg 1 (initial updraft_ds far_cfg) 0 0 = Fin 0
   \<and> interp_w updraft_ds far_cfg 1 (initial updraft_ds far_cfg) 0 0 \<noteq> NaN"
proof -
  have c: "coord_w far_cfg (initial updraft_ds far_cfg) 0 0
      = (Fin (3 / 2), Fin (19 / 2), Fin (199 / 2))"
    by (simp add: coord_w_def xloc_def yloc_def zloc_def initial_row0 far_cfg_simps)
  show ?thesis
    by (simp add: interp_w_def c grid_zyx_def updraft_ds_simps out_of_bounds_arange)
qed

subsection \<open>The tracked variable at the final time step\<close>

text \<open>
  Claim C6 says that the cell after the loop records the tracked variable at the
  positions of the final step from the output time of the terminal time index,
  \<open>start_time_step - (time_steps - 1)\<close>. The cell interpolates \<^verbatim>\<open>var1\<close> as the last pass
  of the loop left it. In the run over two time steps from output time 1, the terminal
  time index is \<open>1 - (2 - 1) = 0\<close>, where the tracked variable is 300 everywhere; the
  value recorded for the final step is 301, the value of output time 1, which the only
  pass of the loop read.
\<close>

theorem final_sample_stale_snapshot:
  "trajectories flat_ds short_cfg = Inr (projr (trajectories flat_ds short_cfg))
   \<and> time_index (nt flat_ds)
        (int (start_time_step short_cfg) - (int (time_steps short_cfg) - 1)) = Inr 0
   \<and> interp_var1 flat_ds (variable flat_ds (var_name1 short_cfg) 0)
        (projr (trajectories flat_ds short_cfg)) (time_steps short_cfg - 1) 0 = Fin 300
   \<and> variable1 (projr (trajectories flat_ds short_cfg)) (time_steps short_cfg - 1) 0 = Fin 301"
proof -
  let ?s1 = "integrate flat_ds short_cfg (Suc 0) 0 (initial flat_ds short_cfg)"
  have snap: "snapshot flat_ds short_cfg 0 = Inr (Suc 0)"
    by (simp add: snapshot_def time_index_def flat_ds_grid short_cfg_simps)
  note run = trajectories_two_steps_fields [OF short_cfg_simps(1) snap]
  have n: "time_steps short_cfg - 1 = Suc 0"
    by (simp add: short_cfg_simps)
  have c: "coord ?s1 (Suc 0) 0 = (Fin (3 / 2), Fin (19 / 2), Fin (89 / 10))"
    by (simp add: coord_def xloc_def yloc_def zloc_def short_run_row1)
  have c': "coord (projr (trajectories flat_ds short_cfg)) (Suc 0) 0 = coord ?s1 (Suc 0) 0"
    by (simp add: coord_def xloc_def yloc_def zloc_def run(2-4))
  have v: "interpn3 (grid_zyx flat_ds) (variable flat_ds name k) NaN (coord ?s1 (Suc 0) 0)
      = Fin (300 + real k)" for name k
    by (simp add: c grid_zyx_def flat_ds_grid flat_ds_fields
        out_of_bounds_arange evaluate_linear3_Fin linear3_const)
  have A: "interp_var1 flat_ds (variable flat_ds (var_name1 short_cfg) 0)
      (projr (trajectories flat_ds short_cfg)) (time_steps short_cfg - 1) 0 = Fin 300"
    unfolding n interp_var1_def c' by (simp add: v)
  have B: "variable1 (projr (trajectories flat_ds short_cfg)) (time_steps short_cfg - 1) 0
      = Fin 301"
    unfolding n run(7) interp_var1_def by (simp add: v)
  have T: "time_index (nt flat_ds)
      (int (start_time_step short_cfg) - (int (time_steps short_cfg) - 1)) = Inr 0"
    by (simp add: time_index_def flat_ds_grid short_cfg_simps)
  from run(1) T A B show ?thesis
    by blast
qed

subsection \<open>The query coordinates of the velocity components\<close>



subsection \<open>Interpolation at a grid index\<close>

text \<open>
  Claim C8, as the routine has it. For every 3D array, the linear interpolation
  evaluated at a point whose three coordinates are interior grid indices \<open>(k, j, i)\<close> of
  the array returns the value stored at that index, whatever the fill value, when the
  other seven values of the cell that the routine selects for the point, at the indices
  \<open>k - 1\<close> to \<open>k\<close>, \<open>j - 1\<close> to \<open>j\<close> and \<open>i - 1\<close> to \<open>i\<close>, are finite. The last index of an
  axis is covered as well as the interior ones \<open>0 < k < n - 1\<close>.
\<close>

theorem interpn3_at_grid_index:
  assumes "0 < k" "k < n\<^sub>z" "0 < j" "j < n\<^sub>y" "0 < i" "i < n\<^sub>x"
    and "\<forall>l \<in> {k - 1, k}. \<forall>m \<in> {j - 1, j}. \<forall>n \<in> {i - 1, i}.
           (l, m, n) \<noteq> (k, j, i) \<longrightarrow> isfinite (values l m n)"
  shows "interpn3 (arange n\<^sub>z, arange n\<^sub>y, arange n\<^sub>x) values fill_value
           (Fin (real k), Fin (real j), Fin (real i)) = values k j i"
proof -
  have inb: "\<not> out_of_bounds (arange n\<^sub>z) (real k)" "\<not> out_of_bounds (arange n\<^sub>y) (real j)"
    "\<not> out_of_bounds (arange n\<^sub>x) (real i)"
    using assms(1-6) by (simp_all add: out_of_bounds_arange)
  from assms(1,3,5) obtain k' j' i' where ind: "k = Suc k'" "j = Suc j'" "i = Suc i'"
    by (cases k; cases j; cases i) auto
  from assms(7) have fin: "isfinite (values k' j' i')" "isfinite (values k' j' (Suc i'))"
    "isfinite (values k' (Suc j') i')" "isfinite (values k' (Suc j') (Suc i'))"
    "isfinite (values (Suc k') j' i')" "isfinite (values (Suc k') j' (Suc i'))"
    "isfinite (values (Suc k') (Suc j') i')"
    by (simp_all add: ind)
  have idx: "find_index (arange n\<^sub>z) (real k) = k'" "norm_distance (arange n\<^sub>z) (real k) = 1"
    "find_index (arange n\<^sub>y) (real j) = j'" "norm_distance (arange n\<^sub>y) (real j) = 1"
    "find_index (arange n\<^sub>x) (real i) = i'" "norm_distance (arange n\<^sub>x) (real i) = 1"
    using find_index_arange_interior [OF assms(1,2)] find_index_arange_interior [OF assms(3,4)]
      find_index_arange_interior [OF assms(5,6)]
    by (simp_all add: ind)
  have "evaluate_linear3 (arange n\<^sub>z, arange n\<^sub>y, arange n\<^sub>x) values (real k, real j, real i)
      = values (Suc k') (Suc j') (Suc i')"
    by (simp add: evaluate_linear3_def Let_def idx weight_def fin fmul_zero_right
        fmul_one_right fadd_zero_left)
  with inb show ?thesis
    by (simp add: ind)
qed

theorem interpn3_at_grid_index_witness:
  "(0::nat) < 2 \<and> (2::nat) < 3
   \<and> isfinite (masked_field 1 1 1) \<and> isfinite (masked_field 1 1 2)
   \<and> isfinite (masked_field 1 2 1) \<and> isfinite (masked_field 1 2 2)
   \<and> isfinite (masked_field 2 1 1) \<and> isfinite (masked_field 2 1 2)
   \<and> isfinite (masked_field 2 2 1)
   \<and> interpn3 (arange 3, arange 3, arange 3) masked_field NaN
        (Fin (real 2), Fin (real 2), Fin (real 2)) = Fin 222"
  using interpn3_at_grid_index [of 2 3 2 3 2 3 masked_field NaN]
  by (simp add: masked_field_simps)

text \<open>
  The \<open>3 \<times> 3 \<times> 3\<close> array that holds not-a-number at index \<open>(0, 0, 0)\<close>, at its interior
  index \<open>(1, 1, 1)\<close>: the routine selects the cell between the indices 0 and 1, the
  corner \<open>(0, 0, 0)\<close> enters the sum with the weight zero, and not-a-number times zero
  is not-a-number. The result is not-a-number, not the stored 111.
\<close>

theorem interpn3_at_grid_index_counterexample:
  "masked_field 1 1 1 = Fin 111
   \<and> interpn3 (arange 3, arange 3, arange 3) masked_field (Fin 0)
        (Fin (real 1), Fin (real 1), Fin (real 1)) = NaN"
proof -
  have i: "find_index (arange 3) 1 = 0" "norm_distance (arange 3) 1 = 1"
    using find_index_arange_interior [of 1 3] by simp_all
  show ?thesis
    by (simp add: out_of_bounds_arange evaluate_linear3_def Let_def weight_def i
        masked_field_simps)
qed

subsection \<open>From grid index to height and back\<close>

lemma linear3_product:
  "linear3 (gz, gy, gx) (\<lambda>l j i. a j i + b l * d j i) (z, y, x) =
     linear2 (gy, gx) a (y, x)
     + (b (find_index gz z) * (1 - norm_distance gz z)
        + b (find_index gz z + 1) * norm_distance gz z) * linear2 (gy, gx) d (y, x)"
  by (simp add: linear3_def linear2_def Let_def weight_def algebra_simps)

lemma linear3_columns:
  assumes "2 \<le> n"
  shows "linear3 (arange n, gy, gx) (\<lambda>l j i. a j i + (real l + 1 / 2) * d j i) (z, y, x)
       = linear2 (gy, gx) a (y, x) + (z + 1 / 2) * linear2 (gy, gx) d (y, x)"
proof -
  have "(real i + 1 / 2) * (1 - (z - real i)) + (real (i + 1) + 1 / 2) * (z - real i)
      = z + 1 / 2" for i
    using lerp_levels [of i 1 z] by simp
  then show ?thesis
    unfolding linear3_product norm_distance_arange [OF assms] by simp
qed

text \<open>
  Where the level heights of every column are the surface height plus \<open>(l + 1/2)\<close> times
  the spacing of the column (levels evenly spaced, no stretching), the height interpolated
  from the level heights at the scalar coordinates of a position, converted back with the
  surface height and the grid spacing interpolated at the same position, gives the
  vertical position again, for every position whose scalar coordinates lie inside the
  grid of the spacing array and where the interpolated spacing is not zero.
\<close>

lemma round_trip_even_levels:
  assumes levels: "\<forall>l<nz ds. \<forall>j<ny ds. \<forall>i<nx ds.
                     zh ds l j i = Fin (g j i + (real l + 1 / 2) * dz j i)"
    and surface: "\<forall>j<ny ds. \<forall>i<nx ds. surface_grid ds j i = Fin (g j i)"
    and grid: "regular_grid ds"
    and pos: "xpos s t p = Fin x" "ypos s t p = Fin y" "zpos s t p = Fin z"
    and ins: "inside3 (grid_vert ds) (coord s t p)"
    and spacing: "interp_vert_res ds s t p \<noteq> Fin 0"
  shows "index_from_height (interp_zh ds s t p) (surface_height ds s t p)
           (interp_vert_res ds s t p) = Fin z"
proof -
  from grid have size: "3 \<le> nz ds" "2 \<le> ny ds" "2 \<le> nx ds"
    by (simp_all add: regular_grid_def)
  let ?z = "z - 1 / 2" and ?y = "y - 1 / 2" and ?x = "x - 1 / 2"
  let ?gz = "arange (nz ds)" and ?gy = "arange (ny ds)" and ?gx = "arange (nx ds)"
  let ?surf = "linear2 (?gy, ?gx) g (?y, ?x)"
  let ?dz = "linear2 (?gy, ?gx) dz (?y, ?x)"
  have c: "coord s t p = (Fin ?z, Fin ?y, Fin ?x)" "coord_zs s t p = (Fin ?y, Fin ?x)"
    by (simp_all add: coord_def coord_zs_def xloc_def yloc_def zloc_def pos)
  from ins have inv: "\<not> out_of_bounds (arange (nz ds - 1)) ?z"
    and iny: "\<not> out_of_bounds ?gy ?y" and inx: "\<not> out_of_bounds ?gx ?x"
    by (simp_all add: c grid_vert_def)
  from size(1) have "1 \<le> nz ds - 1" "nz ds - 1 \<le> nz ds"
    by simp_all
  from out_of_bounds_arange_mono [OF this inv] have inz: "\<not> out_of_bounds ?gz ?z" .
  have nzs: "2 \<le> nz ds" "2 \<le> nz ds - 1"
    using size(1) by simp_all
  have "evaluate_linear3 (?gz, ?gy, ?gx) (zh ds) (?z, ?y, ?x)
      = evaluate_linear3 (?gz, ?gy, ?gx)
          (\<lambda>l j i. Fin (g j i + (real l + 1 / 2) * dz j i)) (?z, ?y, ?x)"
    by (rule evaluate_linear3_cong [OF nzs(1) size(2,3)]) (simp add: levels)
  also have "\<dots> = Fin (?surf + (?z + 1 / 2) * ?dz)"
    by (simp only: evaluate_linear3_Fin linear3_columns [OF nzs(1)])
  finally have "evaluate_linear3 (?gz, ?gy, ?gx) (zh ds) (?z, ?y, ?x) = Fin (?surf + z * ?dz)"
    by simp
  with inz iny inx have h: "interp_zh ds s t p = Fin (?surf + z * ?dz)"
    by (simp add: interp_zh_def c grid_zyx_def)
  have "evaluate_linear2 (?gy, ?gx) (surface_grid ds) (?y, ?x)
      = evaluate_linear2 (?gy, ?gx) (\<lambda>j i. Fin (g j i)) (?y, ?x)"
    by (rule evaluate_linear2_cong [OF size(2,3)]) (simp add: surface)
  then have g: "surface_height ds s t p = Fin ?surf"
    using iny inx by (simp add: surface_height_def c grid_yx_def evaluate_linear2_Fin)
  have "vert_resolution ds l j i = Fin (0 + (real l + 1 / 2) * 0 + dz j i)"
    if "l < nz ds - 1" "j < ny ds" "i < nx ds" for l j i
  proof -
    from that levels have "zh ds (l + 1) j i = Fin (g j i + (real (l + 1) + 1 / 2) * dz j i)"
      "zh ds l j i = Fin (g j i + (real l + 1 / 2) * dz j i)"
      by simp_all
    then show ?thesis
      by (simp add: vert_resolution_def field_simps)
  qed
  then have "evaluate_linear3 (arange (nz ds - 1), ?gy, ?gx) (vert_resolution ds) (?z, ?y, ?x)
      = evaluate_linear3 (arange (nz ds - 1), ?gy, ?gx)
          (\<lambda>l j i. Fin (0 + (real l + 1 / 2) * 0 + dz j i)) (?z, ?y, ?x)"
    by (rule evaluate_linear3_cong [OF nzs(2) size(2,3)])
  also have "\<dots> = Fin (linear3 (arange (nz ds - 1), ?gy, ?gx)
      (\<lambda>l j i. dz j i + (real l + 1 / 2) * 0) (?z, ?y, ?x))"
    by (simp add: evaluate_linear3_Fin)
  also have "\<dots> = Fin ?dz"
    by (simp only: linear3_columns [OF nzs(2)] linear2_const) simp
  finally have "evaluate_linear3 (arange (nz ds - 1), ?gy, ?gx) (vert_resolution ds)
      (?z, ?y, ?x) = Fin ?dz" .
  with inv iny inx have r: "interp_vert_res ds s t p = Fin ?dz"
    by (simp add: interp_vert_res_def c grid_vert_def)
  with spacing have "?dz \<noteq> 0"
    by simp
  then show ?thesis
    by (simp add: index_from_height_def h g r)
qed

text \<open>
  Over the terrain that rises eastward, where the spacing differs from column to column
  and the levels of each column are evenly spaced, the parcel at the vertical grid
  index 2 comes back at 2.
\<close>

lemma round_trip_slope:
  "index_from_height (interp_zh slope_ds (initial slope_ds flat_cfg) 0 0)
     (surface_height slope_ds (initial slope_ds flat_cfg) 0 0)
     (interp_vert_res slope_ds (initial slope_ds flat_cfg) 0 0) = Fin 2"
proof -
  let ?s0 = "initial slope_ds flat_cfg"
  have levels: "\<forall>l<nz slope_ds. \<forall>j<ny slope_ds. \<forall>i<nx slope_ds.
      zh slope_ds l j i = Fin (128 * real i + (real l + 1 / 2) * (8 * real i + 52))"
    by (simp add: slope_ds_simps)
  have surface: "\<forall>j<ny slope_ds. \<forall>i<nx slope_ds. surface_grid slope_ds j i = Fin (128 * real i)"
    by (simp add: surface_grid_def slope_ds_simps)
  have grid: "regular_grid slope_ds"
    by (simp add: regular_grid_def slope_ds_simps)
  have pos: "xpos ?s0 0 0 = Fin 10" "ypos ?s0 0 0 = Fin 10" "zpos ?s0 0 0 = Fin 2"
    by (simp_all add: initial_row0 flat_cfg_simps)
  have c: "coord ?s0 0 0 = (Fin (3 / 2), Fin (19 / 2), Fin (19 / 2))"
    by (simp add: coord_def xloc_def yloc_def zloc_def pos)
  have ins: "inside3 (grid_vert slope_ds) (coord ?s0 0 0)"
    by (simp add: c grid_vert_def slope_ds_simps out_of_bounds_arange)
  have "interp_vert_res slope_ds ?s0 0 0 = Fin 128"
    by (simp add: interp_vert_res_def c slope_interp)
  then have spacing: "interp_vert_res slope_ds ?s0 0 0 \<noteq> Fin 0"
    by simp
  show ?thesis
    by (rule round_trip_even_levels [OF levels surface grid pos ins spacing])
qed

text \<open>
  Claim C9 on the stretched grid, with the air at rest. The parcel seeded at the
  vertical grid index 2 has the height 300 m, halfway between the levels at 150 m and
  450 m. The only pass of the run leaves its horizontal position and its height as they
  are and converts the height back to a grid index: the spacing interpolated at the
  parcel is 400 m, the surface is at 0 m, and the index written for the second time step
  is \<open>300 / 400 = 0.75\<close>, not 2. The same conversion, applied to the height the seed
  index was converted to, with the surface height and the spacing of the very same
  position, gives 0.75 as well.
\<close>

theorem vertical_index_stretched_grid:
  "trajectories still_ds short_cfg = Inr (projr (trajectories still_ds short_cfg))
   \<and> xpos (projr (trajectories still_ds short_cfg)) 0 0 = Fin 10
   \<and> xpos (projr (trajectories still_ds short_cfg)) 1 0 = Fin 10
   \<and> ypos (projr (trajectories still_ds short_cfg)) 0 0 = Fin 10
   \<and> ypos (projr (trajectories still_ds short_cfg)) 1 0 = Fin 10
   \<and> zpos_heightASL (projr (trajectories still_ds short_cfg)) 0 0 = Fin 300
   \<and> zpos_heightASL (projr (trajectories still_ds short_cfg)) 1 0 = Fin 300
   \<and> zpos (projr (trajectories still_ds short_cfg)) 0 0 = Fin 2
   \<and> zpos (projr (trajectories still_ds short_cfg)) 1 0 = Fin 0.75
   \<and> interp_zh still_ds (initial still_ds short_cfg) 0 0 = Fin 300
   \<and> index_from_height (interp_zh still_ds (initial still_ds short_cfg) 0 0)
        (surface_height still_ds (initial still_ds short_cfg) 0 0)
        (interp_vert_res still_ds (initial still_ds short_cfg) 0 0) = Fin 0.75"
proof -
  let ?s0 = "initial still_ds short_cfg"
  let ?s1 = "integrate still_ds short_cfg (Suc 0) 0 ?s0"
  let ?sn = "projr (trajectories still_ds short_cfg)"
  have snap: "snapshot still_ds short_cfg 0 = Inr (Suc 0)"
    by (simp add: snapshot_def time_index_def still_ds_simps short_cfg_simps)
  note run = trajectories_two_steps_fields [OF short_cfg_simps(1) snap]
  have pos: "xpos ?s0 0 0 = Fin 10" "ypos ?s0 0 0 = Fin 10" "zpos ?s0 0 0 = Fin 2"
    by (simp_all add: initial_row0 short_cfg_simps)
  have c: "coord_u short_cfg ?s0 0 0 = (Fin (3 / 2), Fin (19 / 2), Fin (19 / 2))"
    "coord_v short_cfg ?s0 0 0 = (Fin (3 / 2), Fin (19 / 2), Fin (19 / 2))"
    "coord_w short_cfg ?s0 0 0 = (Fin (3 / 2), Fin (19 / 2), Fin (19 / 2))"
    "coord ?s0 0 0 = (Fin (3 / 2), Fin (19 / 2), Fin (19 / 2))"
    "coord_zs ?s0 0 0 = (Fin (19 / 2), Fin (19 / 2))"
    by (simp_all add: coord_u_def coord_v_def coord_w_def coord_def coord_zs_def
        xloc_def yloc_def zloc_def initial_row0 short_cfg_simps)
  have i: "find_index (arange 5) (3 / 2) = 1" "find_index (arange 4) (3 / 2) = 1"
    by (simp_all add: find_index_arange)
  have "linear3 (arange 5, arange 20, arange 20) (\<lambda>l j i. 50 + 100 * real (l * l))
          (3 / 2, 19 / 2, 19 / 2) = 300"
    using linear3_split [of "arange 5" "arange 20" "arange 20" "\<lambda>j i. 50"
        "\<lambda>l. 100 * real (l * l)" "3 / 2" "19 / 2" "19 / 2"]
    by (simp add: linear2_const norm_distance_arange i)
  then have zh0: "interp_zh still_ds ?s0 0 0 = Fin 300"
    by (simp add: interp_zh_def c grid_zyx_def still_ds_simps out_of_bounds_arange
        evaluate_linear3_Fin)
  have "interp_zh still_ds (seeded short_cfg) 0 0 = Fin 300"
    using zh0 by (simp add: initial_interp)
  then have h0: "zpos_heightASL ?s0 0 0 = Fin 300"
    by (simp add: initial_row0)
  have v: "vert_resolution still_ds = (\<lambda>l j i. Fin (0 + (100 + 200 * real l)))"
    by (simp add: vert_resolution_def still_ds_simps fun_eq_iff algebra_simps)
  have "evaluate_linear3 (arange 4, arange 20, arange 20) (vert_resolution still_ds)
          (3 / 2, 19 / 2, 19 / 2) = Fin 400"
    unfolding v evaluate_linear3_Fin linear3_split
    by (simp add: linear2_const norm_distance_arange i)
  then have r0: "interp_vert_res still_ds ?s0 0 0 = Fin 400"
    by (simp add: interp_vert_res_def c grid_vert_def still_ds_simps out_of_bounds_arange)
  have g0: "surface_height still_ds ?s0 0 0 = Fin 0"
    by (simp add: surface_height_def c grid_yx_def surface_grid_def still_ds_simps
        out_of_bounds_arange evaluate_linear2_Fin linear2_const)
  have x1: "xpos ?s1 (Suc 0) 0 = Fin 10"
    by (simp add: xpos_integrate interp_u_def c grid_zyx_def still_ds_simps
        out_of_bounds_arange evaluate_linear3_Fin linear3_const pos)
  have y1: "ypos ?s1 (Suc 0) 0 = Fin 10"
    by (simp add: ypos_integrate interp_v_def c grid_zyx_def still_ds_simps
        out_of_bounds_arange evaluate_linear3_Fin linear3_const pos)
  have h1: "zpos_heightASL ?s1 (Suc 0) 0 = Fin 300"
    by (simp add: zpos_heightASL_integrate interp_w_def c grid_zyx_def still_ds_simps
        out_of_bounds_arange evaluate_linear3_Fin linear3_const h0)
  have r: "zpos_vert_res ?s1 0 0 = Fin 400"
    by (simp add: zpos_vert_res_integrate r0)
  have g1: "surface_height still_ds ?s1 (Suc 0) 0 = Fin 0"
    by (simp add: surface_height_def coord_zs_def xloc_def yloc_def x1 y1 grid_yx_def
        surface_grid_def still_ds_simps out_of_bounds_arange evaluate_linear2_Fin linear2_const)
  have "zpos ?s1 (0 + 1) 0 = Fin (3 / 4)"
    by (subst zpos_integrate)
       (simp add: h1 r g1 index_from_height_def zpos_min_def short_cfg_simps)
  then have z1: "zpos ?s1 (Suc 0) 0 = Fin (3 / 4)"
    by simp
  have "zpos ?s1 0 0 = clip_min (zpos_min short_cfg) (zpos ?s0 0 0)"
    by (subst zpos_integrate) simp
  then have z0: "zpos ?s1 0 0 = Fin 2"
    by (simp add: pos zpos_min_def short_cfg_simps)
  have A: "xpos ?sn 0 0 = Fin 10" "ypos ?sn 0 0 = Fin 10" "zpos_heightASL ?sn 0 0 = Fin 300"
    by (simp_all add: run(2,3,5) xpos_integrate ypos_integrate zpos_heightASL_integrate pos h0)
  have B: "xpos ?sn 1 0 = Fin 10" "ypos ?sn 1 0 = Fin 10" "zpos_heightASL ?sn 1 0 = Fin 300"
    using x1 y1 h1 by (simp_all add: run(2,3,5))
  have C: "zpos ?sn 0 0 = Fin 2" "zpos ?sn 1 0 = Fin 0.75"
    using z0 z1 by (simp_all add: run(4))
  have D: "index_from_height (interp_zh still_ds ?s0 0 0) (surface_height still_ds ?s0 0 0)
      (interp_vert_res still_ds ?s0 0 0) = Fin 0.75"
    by (simp add: zh0 g0 r0 index_from_height_def)
  show ?thesis
    by (intro conjI run(1) A B C zh0 D)
qed

subsection \<open>The grid spacing at the final time step\<close>

text \<open>
  Claim C10. In every run that completes, the entry of the grid spacing array at the
  final time index \<open>time_steps - 1\<close> is the zero it was created with, for every parcel:
  a pass of the loop writes its own row \<open>t\<close> of the array and no other, the loop runs
  over \<open>t = 0\<close> to \<open>time_steps - 2\<close>, and the cell after the loop does not write the array.
\<close>

theorem vert_res_final_row:
  assumes "trajectories ds cfg = Inr s"
  shows "zpos_vert_res s (time_steps cfg - 1) p = Fin 0
       \<and> (\<forall>t t' s\<^sub>1 s\<^sub>2. step ds cfg t s\<^sub>1 = Inr s\<^sub>2 \<and> t' \<noteq> t
              \<longrightarrow> zpos_vert_res s\<^sub>2 t' p = zpos_vert_res s\<^sub>1 t' p)
       \<and> (\<forall>s\<^sub>1 s\<^sub>2. final_sample ds cfg s\<^sub>1 = Inr s\<^sub>2 \<longrightarrow> zpos_vert_res s\<^sub>2 = zpos_vert_res s\<^sub>1)"
proof (intro conjI allI impI)
  from assms obtain s1
    where loop: "run_loop ds cfg [0..<time_steps cfg - 1] (initial ds cfg) = Inr s1"
      and fin: "final_sample ds cfg s1 = Inr s"
    by (auto simp: trajectories_def initialize_def split: sum.splits if_splits)
  have "zpos_vert_res s1 (time_steps cfg - 1) p
      = zpos_vert_res (initial ds cfg) (time_steps cfg - 1) p"
    by (rule run_loop_vert_res_frame [OF loop]) simp
  with final_sample_frame(5) [OF fin] show "zpos_vert_res s (time_steps cfg - 1) p = Fin 0"
    by (simp add: initial_row0)
next
  fix t t' s\<^sub>1 s\<^sub>2
  assume "step ds cfg t s\<^sub>1 = Inr s\<^sub>2 \<and> t' \<noteq> t"
  then show "zpos_vert_res s\<^sub>2 t' p = zpos_vert_res s\<^sub>1 t' p"
    using step_vert_res_frame [of ds cfg t s\<^sub>1 s\<^sub>2 t' p] by blast
next
  fix s\<^sub>1 s\<^sub>2
  assume "final_sample ds cfg s\<^sub>1 = Inr s\<^sub>2"
  then show "zpos_vert_res s\<^sub>2 = zpos_vert_res s\<^sub>1"
    by (rule final_sample_frame(5))
qed

theorem vert_res_final_row_witness:
  "trajectories flat_ds short_cfg = Inr (projr (trajectories flat_ds short_cfg))
   \<and> zpos_vert_res (projr (trajectories flat_ds short_cfg)) (time_steps short_cfg - 1) 0 = Fin 0
   \<and> zpos_vert_res (projr (trajectories flat_ds short_cfg)) 0 0 = Fin 100"
proof -
  have snap: "snapshot flat_ds short_cfg 0 = Inr 1"
    by (simp add: snapshot_def time_index_def flat_ds_grid short_cfg_simps)
  note run = trajectories_two_steps_fields [OF short_cfg_simps(1) snap]
  have c: "coord (initial flat_ds short_cfg) 0 0 = (Fin (3 / 2), Fin (19 / 2), Fin (19 / 2))"
    by (simp add: coord_def xloc_def yloc_def zloc_def initial_row0 short_cfg_simps)
  have v: "vert_resolution flat_ds = (\<lambda>l j i. Fin 100)"
    by (simp add: vert_resolution_def flat_ds_fields)
  have "interp_vert_res flat_ds (initial flat_ds short_cfg) 0 0 = Fin 100"
    by (simp add: interp_vert_res_def c v grid_vert_def flat_ds_grid out_of_bounds_arange
        evaluate_linear3_Fin linear3_const)
  then have "zpos_vert_res (projr (trajectories flat_ds short_cfg)) 0 0 = Fin 100"
    by (simp add: run(6) zpos_vert_res_integrate)
  with vert_res_final_row [OF run(1), of 0, THEN conjunct1] run(1) show ?thesis
    by (intro conjI)
qed

end
